theory Spec2Isabelle
  imports Main "HOL-Library.Sublist"
begin

section \<open>JavaScript values and the platform functions the program calls\<close>

text \<open>
  ZenTime is a TypeScript/React program. Strings are modelled as \<open>string\<close> (8-bit
  characters). A thrown exception is a value of \<open>js_error\<close>, and a function that
  may throw returns \<open>js_error + 'a\<close> with \<open>Inl\<close> for the exception.
\<close>

datatype js_error = Error string | SyntaxError string | TypeError string

fun message :: "js_error \<Rightarrow> string" where
  "message (Error m) = m"
| "message (SyntaxError m) = m"
| "message (TypeError m) = m"

text \<open>
  The result of \<open>JSON.parse\<close>, of type \<open>any\<close> in the source. A number is kept
  exactly as mantissa and decimal exponent: \<open>JNum m e\<close> stands for \<open>m * 10 ^ e\<close>.
  An object keeps its members in source order.
\<close>

datatype json =
    JNull
  | JBool bool
  | JNum int int
  | JStr string
  | JArr "json list"
  | JObj "(string \<times> json) list"


subsection \<open>String functions\<close>

text \<open>
  \<open>includes_str t s\<close> is \<open>t.includes(s)\<close>.
\<close>

fun includes_str :: "string \<Rightarrow> string \<Rightarrow> bool" where
  "includes_str [] s = (s = [])"
| "includes_str (c # cs) s = (prefix s (c # cs) \<or> includes_str cs s)"

text \<open>
  \<open>String.prototype.toLowerCase\<close>, \<open>String.prototype.trim\<close> and the conversion of
  a number to a string belong to the JavaScript platform. The program is modelled for
  every choice of these three functions: they are the fields of a record that the
  functions of the program take as their first argument, and the general theorems below
  hold for every such record. \<open>Number_toString m e\<close> is the string of the number
  \<open>m * 10 ^ e\<close>.
\<close>

record platform =
  toLowerCase :: "string \<Rightarrow> string"
  trim :: "string \<Rightarrow> string"
  Number_toString :: "int \<Rightarrow> int \<Rightarrow> string"

text \<open>
  One platform, used for the concrete runs below. Its characters are the code points
  U+0000 to U+00FF: \<open>toLowerCase\<close> lowers A to Z and the capital letters U+00C0 to
  U+00DE (but not the multiplication sign U+00D7); \<open>trim\<close> removes tab, line feed,
  vertical tab, form feed, carriage return, space and no-break space at both ends; a
  number is written the way \<open>Number.prototype.toString\<close> writes the decimal it is
  given, without the rounding to a double.
\<close>

definition latin1_toLowerCase_char :: "char \<Rightarrow> char" where
  "latin1_toLowerCase_char c =
     (let n = (of_char c :: nat) in
      if (65 \<le> n \<and> n \<le> 90) \<or> (192 \<le> n \<and> n \<le> 222 \<and> n \<noteq> 215) then char_of (n + 32)
      else c)"

definition latin1_toLowerCase :: "string \<Rightarrow> string" where
  "latin1_toLowerCase s = map latin1_toLowerCase_char s"

definition is_white_space :: "char \<Rightarrow> bool" where
  "is_white_space c = ((of_char c :: nat) \<in> {9, 10, 11, 12, 13, 32, 160})"

definition latin1_trim :: "string \<Rightarrow> string" where
  "latin1_trim s = rev (dropWhile is_white_space (rev (dropWhile is_white_space s)))"

definition digit_char :: "nat \<Rightarrow> char" where
  "digit_char d = ''0123456789'' ! (d mod 10)"

fun string_of_nat :: "nat \<Rightarrow> string" where
  "string_of_nat n =
     (if n < 10 then [digit_char n] else string_of_nat (n div 10) @ [digit_char (n mod 10)])"

declare string_of_nat.simps [simp del]

definition decimal_toString :: "int \<Rightarrow> int \<Rightarrow> string" where
  "decimal_toString m e =
     (if m = 0 then ''0''
      else
        let ds = string_of_nat (nat \<bar>m\<bar>);
            z = length (takeWhile (\<lambda>c. c = CHR ''0'') (rev ds));
            digits = take (length ds - z) ds;
            k = int (length digits);
            n = k + e + int z
        in (if m < 0 then ''-'' else [])
           @ (if k \<le> n \<and> n \<le> 21 then digits @ replicate (nat (n - k)) (CHR ''0'')
              else if 0 < n \<and> n \<le> 21 then take (nat n) digits @ ''.'' @ drop (nat n) digits
              else if - 6 < n \<and> n \<le> 0 then ''0.'' @ replicate (nat (- n)) (CHR ''0'') @ digits
              else take 1 digits @ (if k = 1 then [] else ''.'' @ drop 1 digits) @ ''e''
                   @ (if 0 < n - 1 then ''+'' else ''-'') @ string_of_nat (nat \<bar>n - 1\<bar>)))"

definition latin1 :: platform where
  "latin1 = \<lparr> toLowerCase = latin1_toLowerCase, trim = latin1_trim,
              Number_toString = decimal_toString \<rparr>"

subsection \<open>JSON.parse\<close>

text \<open>
  \<open>JSON.parse\<close> is a function of the JavaScript platform. It is modelled by a
  recursive-descent reader of the JSON grammar; \<open>None\<close> stands for the
  \<open>SyntaxError\<close> it throws. The fuel of the reader is twice the length of the
  text plus two: every second nested call has consumed a character. A number is read
  exactly, without the rounding to a double. An escape \<open>\u\<close> above U+00FF names a
  character that the 8-bit strings of the model do not have; it is read modulo 256.
\<close>

definition is_ws :: "char \<Rightarrow> bool" where
  "is_ws c = (c = CHR '' '' \<or> c = CHR 0x09 \<or> c = CHR 0x0A \<or> c = CHR 0x0D)"

definition skip_ws :: "string \<Rightarrow> string" where
  "skip_ws s = dropWhile is_ws s"

definition is_digit :: "char \<Rightarrow> bool" where
  "is_digit c = (c \<in> set ''0123456789'')"

definition digit_val :: "char \<Rightarrow> nat" where
  "digit_val c = (case map_of (zip ''0123456789'' [0, 1, 2, 3, 4, 5, 6, 7, 8, 9]) c of
                    Some d \<Rightarrow> d | None \<Rightarrow> 0)"

definition digits_val :: "string \<Rightarrow> nat" where
  "digits_val ds = foldl (\<lambda>a c. 10 * a + digit_val c) 0 ds"

definition hex_val :: "char \<Rightarrow> nat option" where
  "hex_val c = map_of (zip ''0123456789abcdefABCDEF''
                 [0, 1, 2, 3, 4, 5, 6, 7, 8, 9, 10, 11, 12, 13, 14, 15, 10, 11, 12, 13, 14, 15]) c"

definition escape_char :: "char \<Rightarrow> char option" where
  "escape_char c = map_of
     [(CHR 0x22, CHR 0x22), (CHR 0x5C, CHR 0x5C), (CHR ''/'', CHR ''/''),
      (CHR ''b'', CHR 0x08), (CHR ''f'', CHR 0x0C), (CHR ''n'', CHR 0x0A),
      (CHR ''r'', CHR 0x0D), (CHR ''t'', CHR 0x09)] c"

text \<open>The characters of a string literal after its opening quote, up to the closing one.\<close>

fun string_chars :: "string \<Rightarrow> (string \<times> string) option" where
  "string_chars [] = None"
| "string_chars [c] = (if c = CHR 0x22 then Some ([], []) else None)"
| "string_chars (c # e # cs) =
     (if c = CHR 0x22 then Some ([], e # cs)
      else if c = CHR 0x5C then
        (if e = CHR ''u'' then
           (case cs of
              h1 # h2 # h3 # h4 # cs' \<Rightarrow>
                (case (hex_val h1, hex_val h2, hex_val h3, hex_val h4) of
                   (Some a, Some b, Some c', Some d) \<Rightarrow>
                     (case string_chars cs' of
                        None \<Rightarrow> None
                      | Some (str, r) \<Rightarrow>
                          Some (char_of (((a * 16 + b) * 16 + c') * 16 + d) # str, r))
                 | _ \<Rightarrow> None)
            | _ \<Rightarrow> None)
         else
           (case escape_char e of
              None \<Rightarrow> None
            | Some x \<Rightarrow>
                (case string_chars cs of
                   None \<Rightarrow> None
                 | Some (str, r) \<Rightarrow> Some (x # str, r))))
      else if (of_char c :: nat) < 32 then None
      else (case string_chars (e # cs) of
              None \<Rightarrow> None
            | Some (str, r) \<Rightarrow> Some (c # str, r)))"

definition fraction :: "string \<Rightarrow> (string \<times> string) option" where
  "fraction s =
     (case s of
        [] \<Rightarrow> Some ([], [])
      | c # cs \<Rightarrow>
          if c = CHR ''.'' then
            (if takeWhile is_digit cs = [] then None
             else Some (takeWhile is_digit cs, dropWhile is_digit cs))
          else Some ([], s))"

definition exponent_digits :: "bool \<Rightarrow> string \<Rightarrow> (int \<times> string) option" where
  "exponent_digits neg s =
     (if takeWhile is_digit s = [] then None
      else Some ((if neg then - 1 else 1) * int (digits_val (takeWhile is_digit s)),
                 dropWhile is_digit s))"

definition exponent :: "string \<Rightarrow> (int \<times> string) option" where
  "exponent s =
     (case s of
        [] \<Rightarrow> Some (0, [])
      | c # cs \<Rightarrow>
          if c = CHR ''e'' \<or> c = CHR ''E'' then
            (case cs of
               [] \<Rightarrow> None
             | g # ds \<Rightarrow>
                 if g = CHR ''-'' then exponent_digits True ds
                 else if g = CHR ''+'' then exponent_digits False ds
                 else exponent_digits False cs)
          else Some (0, s))"

definition unsigned_number :: "bool \<Rightarrow> string \<Rightarrow> (json \<times> string) option" where
  "unsigned_number neg s =
     (let ip = takeWhile is_digit s in
      if ip = [] \<or> (1 < length ip \<and> hd ip = CHR ''0'') then None
      else
        (case fraction (dropWhile is_digit s) of
           None \<Rightarrow> None
         | Some (fp, s') \<Rightarrow>
             (case exponent s' of
                None \<Rightarrow> None
              | Some (ex, r) \<Rightarrow>
                  Some (JNum ((if neg then - 1 else 1) * int (digits_val (ip @ fp)))
                             (ex - int (length fp)), r))))"

definition number :: "string \<Rightarrow> (json \<times> string) option" where
  "number s =
     (case s of
        [] \<Rightarrow> None
      | c # cs \<Rightarrow> if c = CHR ''-'' then unsigned_number True cs else unsigned_number False s)"

fun parse_value :: "nat \<Rightarrow> string \<Rightarrow> (json \<times> string) option"
  and parse_elements :: "nat \<Rightarrow> string \<Rightarrow> (json list \<times> string) option"
  and parse_members :: "nat \<Rightarrow> string \<Rightarrow> ((string \<times> json) list \<times> string) option"
where
  "parse_value 0 s = None"
| "parse_value (Suc n) s =
     (case skip_ws s of
        [] \<Rightarrow> None
      | c # cs \<Rightarrow>
          if c = CHR ''{'' then
            (case skip_ws cs of
               [] \<Rightarrow> None
             | d # ds \<Rightarrow>
                 if d = CHR ''}'' then Some (JObj [], ds)
                 else (case parse_members n (d # ds) of
                         None \<Rightarrow> None
                       | Some (ms, r) \<Rightarrow> Some (JObj ms, r)))
          else if c = CHR ''['' then
            (case skip_ws cs of
               [] \<Rightarrow> None
             | d # ds \<Rightarrow>
                 if d = CHR '']'' then Some (JArr [], ds)
                 else (case parse_elements n (d # ds) of
                         None \<Rightarrow> None
                       | Some (vs, r) \<Rightarrow> Some (JArr vs, r)))
          else if c = CHR 0x22 then
            (case string_chars cs of
               None \<Rightarrow> None
             | Some (str, r) \<Rightarrow> Some (JStr str, r))
          else if prefix ''true'' (c # cs) then Some (JBool True, drop 4 (c # cs))
          else if prefix ''false'' (c # cs) then Some (JBool False, drop 5 (c # cs))
          else if prefix ''null'' (c # cs) then Some (JNull, drop 4 (c # cs))
          else number (c # cs))"
| "parse_elements 0 s = None"
| "parse_elements (Suc n) s =
     (case parse_value n s of
        None \<Rightarrow> None
      | Some (v, r) \<Rightarrow>
          (case skip_ws r of
             [] \<Rightarrow> None
           | c # cs \<Rightarrow>
               if c = CHR '','' then
                 (case parse_elements n cs of
                    None \<Rightarrow> None
                  | Some (vs, r') \<Rightarrow> Some (v # vs, r'))
               else if c = CHR '']'' then Some ([v], cs)
               else None))"
| "parse_members 0 s = None"
| "parse_members (Suc n) s =
     (case skip_ws s of
        [] \<Rightarrow> None
      | q # cs \<Rightarrow>
          if q \<noteq> CHR 0x22 then None
          else
            (case string_chars cs of
               None \<Rightarrow> None
             | Some (k, r) \<Rightarrow>
                 (case skip_ws r of
                    [] \<Rightarrow> None
                  | c # r1 \<Rightarrow>
                      if c \<noteq> CHR '':'' then None
                      else
                        (case parse_value n r1 of
                           None \<Rightarrow> None
                         | Some (v, r2) \<Rightarrow>
                             (case skip_ws r2 of
                                [] \<Rightarrow> None
                              | d # r3 \<Rightarrow>
                                  if d = CHR '','' then
                                    (case parse_members n r3 of
                                       None \<Rightarrow> None
                                     | Some (ms, r') \<Rightarrow> Some ((k, v) # ms, r'))
                                  else if d = CHR ''}'' then Some ([(k, v)], r3)
                                  else None)))))"

definition JSON_parse :: "string \<Rightarrow> json option" where
  "JSON_parse s =
     (case parse_value (2 * length s + 2) s of
        None \<Rightarrow> None
      | Some (v, r) \<Rightarrow> if skip_ws r = [] then Some v else None)"

text \<open>
  The call as the program sees it. The message of the \<open>SyntaxError\<close> depends on the
  JavaScript engine; the model fixes one text.
\<close>

definition JSON_parse_or_throw :: "string \<Rightarrow> js_error + json" where
  "JSON_parse_or_throw s =
     (case JSON_parse s of
        None \<Rightarrow> Inl (SyntaxError ''Unexpected token in JSON'')
      | Some v \<Rightarrow> Inr v)"

text \<open>
  A value of the program is a parsed value or \<open>undefined\<close>, here \<open>None\<close>.
  Reading a property of a value that is not \<open>null\<close>, \<open>v.k\<close>, for the property names
  the program reads (none of them is a property of a string, an array or a prototype): of
  two members with the same key the later one is the member of the object. Reading a
  property of \<open>null\<close> throws; the functions below test for \<open>JNull\<close> where the program
  reads the first property.
\<close>

type_synonym jsval = "json option"

definition get_prop :: "json \<Rightarrow> string \<Rightarrow> jsval" where
  "get_prop v k = (case v of JObj ms \<Rightarrow> map_of (rev ms) k | _ \<Rightarrow> None)"

text \<open>
  The messages of the \<open>TypeError\<close>s are those of one engine; no theorem below depends on
  their wording.
\<close>

definition cannot_read :: "string \<Rightarrow> string \<Rightarrow> js_error" where
  "cannot_read what k =
     TypeError (''Cannot read properties of '' @ what @ '' (reading '' @ [CHR 0x27] @ k
                  @ [CHR 0x27] @ '')'')"

definition not_a_function :: "string \<Rightarrow> js_error" where
  "not_a_function what = TypeError (what @ '' is not a function'')"

text \<open>
  Truthiness, as \<open>||\<close> and \<open>!!\<close> test it. A number is falsy when its double is zero:
  when it is zero or rounds to zero, that is when it is at most \<open>2 ^ - 1075\<close> in
  absolute value.
\<close>

definition rounds_to_zero :: "int \<Rightarrow> int \<Rightarrow> bool" where
  "rounds_to_zero m e = (m = 0 \<or> (e < 0 \<and> \<bar>m\<bar> * 2 ^ 1075 \<le> 10 ^ nat (- e)))"

fun truthy :: "jsval \<Rightarrow> bool" where
  "truthy None = False"
| "truthy (Some JNull) = False"
| "truthy (Some (JBool b)) = b"
| "truthy (Some (JNum m e)) = (\<not> rounds_to_zero m e)"
| "truthy (Some (JStr s)) = (s \<noteq> [])"
| "truthy (Some (JArr vs)) = True"
| "truthy (Some (JObj ms)) = True"

text \<open>
  The conversion to a string of a template literal, \<open>`${v}`\<close>. An array is joined with
  commas, \<open>null\<close> elements giving the empty string; an object is \<open>[object Object]\<close>,
  unless it has a member \<open>toString\<close> of its own, which hides the method of the
  prototype and is no function: then the conversion throws.
\<close>

fun ToString :: "(int \<Rightarrow> int \<Rightarrow> string) \<Rightarrow> json \<Rightarrow> js_error + string"
  and join :: "(int \<Rightarrow> int \<Rightarrow> string) \<Rightarrow> json list \<Rightarrow> js_error + string"
where
  "ToString f JNull = Inr ''null''"
| "ToString f (JBool b) = Inr (if b then ''true'' else ''false'')"
| "ToString f (JNum m e) = Inr (f m e)"
| "ToString f (JStr s) = Inr s"
| "ToString f (JArr vs) = join f vs"
| "ToString f (JObj ms) =
     (if ''toString'' \<in> fst ` set ms
      then Inl (TypeError ''Cannot convert object to primitive value'')
      else Inr ''[object Object]'')"
| "join f [] = Inr []"
| "join f (v # vs) =
     (case (if v = JNull then Inr [] else ToString f v) of
        Inl e \<Rightarrow> Inl e
      | Inr x \<Rightarrow>
          if vs = [] then Inr x
          else (case join f vs of Inl e \<Rightarrow> Inl e | Inr y \<Rightarrow> Inr (x @ '','' @ y)))"

definition to_string :: "platform \<Rightarrow> jsval \<Rightarrow> js_error + string" where
  "to_string P v = (case v of None \<Rightarrow> Inr ''undefined'' | Some j \<Rightarrow> ToString (Number_toString P) j)"

text \<open>
  \<open>v.toLowerCase()\<close> for a value \<open>v\<close> written \<open>what\<close> in the program: a call on a
  string, and a \<open>TypeError\<close> on every other value.
\<close>

definition lower_case :: "platform \<Rightarrow> string \<Rightarrow> jsval \<Rightarrow> js_error + string" where
  "lower_case P what v =
     (case v of
        None \<Rightarrow> Inl (cannot_read ''undefined'' ''toLowerCase'')
      | Some JNull \<Rightarrow> Inl (cannot_read ''null'' ''toLowerCase'')
      | Some (JStr s) \<Rightarrow> Inr (toLowerCase P s)
      | Some _ \<Rightarrow> Inl (not_a_function (what @ ''.toLowerCase'')))"

section \<open>Data model (types.ts)\<close>

datatype TaskPriority = HIGH | MEDIUM | LOW

text \<open>
  The fields of a task that the dispatcher writes from \<open>args\<close>, which has type \<open>any\<close>,
  hold whatever value the arguments carry: \<open>title\<close>, \<open>notes\<close>, \<open>category\<close> (the
  enum \<open>TaskCategory\<close> is a set of strings at run time), \<open>estimatedDuration\<close> and
  \<open>reminderTime\<close> are values, with \<open>None\<close> for an absent field. The field \<open>id\<close>
  is written \<open>id'\<close>, the field \<open>notes\<close> \<open>notes'\<close>.
\<close>

record Task =
  id' :: string
  title :: jsval
  notes' :: jsval
  category :: jsval
  priority :: TaskPriority
  estimatedDuration :: jsval
  reminderTime :: jsval
  alarmEnabled :: "bool option"
  completed :: bool
  createdAt :: int

record GeneralNote =
  note_id :: string
  note_content :: string
  note_createdAt :: int
  color :: "string option"

datatype role = user | model

datatype ChatMessage = ChatMessage role string

subsection \<open>The canonical response (AIResponse in aiService.ts)\<close>

text \<open>\<open>args\<close> is any parsed value; \<open>JNull\<close> also stands for a missing \<open>args\<close>.\<close>

record functionCall =
  name :: string
  args :: json

record part =
  text' :: "string option"
  functionCall :: "functionCall option"

text \<open>A candidate is represented by its \<open>content.parts\<close>.\<close>

record AIResponse =
  candidates :: "part list list"

section \<open>Application state and the tool-call dispatcher (App.tsx)\<close>

record app =
  tasks :: "Task list"
  generalNotes :: "GeneralNote list"
  chatHistory :: "ChatMessage list"
  userInput :: string
  showSuggestions :: bool
  isAiLoading :: bool
  activeAlarm :: "Task option"

text \<open>
  A state setter called with a function queues the function; React applies the queued
  functions, in order, when it renders the component next. What the handler leaves
  behind is therefore either the state of the next render, \<open>Inr\<close>, or the exception
  that a queued function throws in that render, \<open>Inl\<close>: the component has no error
  boundary, and the application is unmounted. \<open>setTasks\<close> applies an updater to this
  pending state; once an updater has thrown, later updates change nothing.
\<close>

type_synonym pending = "js_error + app"

definition setTasks :: "(Task list \<Rightarrow> js_error + Task list) \<Rightarrow> pending \<Rightarrow> pending" where
  "setTasks updater rs =
     (case rs of
        Inl e \<Rightarrow> Inl e
      | Inr s \<Rightarrow> (case updater (tasks s) of Inl e \<Rightarrow> Inl e | Inr ts \<Rightarrow> Inr (s\<lparr>tasks := ts\<rparr>)))"

text \<open>
  The object \<open>newTask\<close> of \<open>addTask\<close>, lines 98 to 109. The results of
  \<open>crypto.randomUUID()\<close> and \<open>Date.now()\<close> are the first two arguments.
\<close>

definition newTask :: "string \<Rightarrow> int \<Rightarrow> jsval \<Rightarrow> jsval \<Rightarrow> jsval \<Rightarrow> jsval \<Rightarrow> jsval \<Rightarrow> Task" where
  "newTask uuid now ttl cat duration nts alarmTime =
     \<lparr> id' = uuid,
       title = ttl,
       notes' = (if truthy nts then nts else Some (JStr [])),
       category = cat,
       priority = MEDIUM,
       estimatedDuration = duration,
       reminderTime = alarmTime,
       alarmEnabled = Some (truthy alarmTime),
       completed = False,
       createdAt = now \<rparr>"

text \<open>\<open>addTask\<close>, lines 97 to 112: the new task and the pending state.\<close>

definition addTask ::
  "string \<Rightarrow> int \<Rightarrow> jsval \<Rightarrow> jsval \<Rightarrow> jsval \<Rightarrow> jsval \<Rightarrow> jsval \<Rightarrow> pending \<Rightarrow> Task \<times> pending" where
  "addTask uuid now ttl cat duration nts alarmTime rs =
     (newTask uuid now ttl cat duration nts alarmTime,
      setTasks (\<lambda>prev. Inr (prev @ [newTask uuid now ttl cat duration nts alarmTime])) rs)"

text \<open>
  The test \<open>t.title.toLowerCase().includes(args.taskTitle.toLowerCase())\<close>, evaluated
  from left to right.
\<close>

definition title_matches :: "platform \<Rightarrow> json \<Rightarrow> Task \<Rightarrow> js_error + bool" where
  "title_matches P a t =
     (case lower_case P ''t.title'' (title t) of
        Inl e \<Rightarrow> Inl e
      | Inr lt \<Rightarrow>
          if a = JNull then Inl (cannot_read ''null'' ''taskTitle'')
          else (case lower_case P ''args.taskTitle'' (get_prop a ''taskTitle'') of
                  Inl e \<Rightarrow> Inl e
                | Inr la \<Rightarrow> Inr (includes_str lt la)))"

text \<open>
  \<open>prev.map(t => test ? changed : t)\<close>: the first test that throws ends the \<open>map\<close>.
\<close>

fun map_matching ::
  "platform \<Rightarrow> json \<Rightarrow> (Task \<Rightarrow> Task) \<Rightarrow> Task list \<Rightarrow> js_error + Task list" where
  "map_matching P a change [] = Inr []"
| "map_matching P a change (t # prev) =
     (case title_matches P a t of
        Inl e \<Rightarrow> Inl e
      | Inr b \<Rightarrow>
          (case map_matching P a change prev of
             Inl e \<Rightarrow> Inl e
           | Inr ts \<Rightarrow> Inr ((if b then change t else t) # ts)))"

text \<open>The two updater functions passed to \<open>setTasks\<close>, lines 157 to 160 and 163 to 166.\<close>

definition update_notes :: "platform \<Rightarrow> json \<Rightarrow> Task list \<Rightarrow> js_error + Task list" where
  "update_notes P a prev =
     map_matching P a
       (\<lambda>t. t\<lparr>notes' := get_prop a ''notes'',
               estimatedDuration :=
                 (if truthy (get_prop a ''duration'') then get_prop a ''duration''
                  else estimatedDuration t)\<rparr>) prev"

definition set_alarm :: "platform \<Rightarrow> json \<Rightarrow> Task list \<Rightarrow> js_error + Task list" where
  "set_alarm P a prev =
     map_matching P a
       (\<lambda>t. t\<lparr>reminderTime := get_prop a ''time'', alarmEnabled := Some True\<rparr>) prev"

text \<open>
  The body of \<open>if (part.functionCall)\<close>, lines 152 to 168, on the pending state and the
  reply text built so far. \<open>Inl\<close>: the body throws, with the pending state at that
  moment; \<open>Inr\<close>: it completes.
\<close>

definition acknowledge ::
  "platform \<Rightarrow> string \<Rightarrow> jsval \<Rightarrow> string \<Rightarrow> pending \<times> string \<Rightarrow>
     (js_error \<times> pending) + (pending \<times> string)" where
  "acknowledge P before v after st =
     (case st of (rs, modelResponseText) \<Rightarrow>
      case to_string P v of
        Inl e \<Rightarrow> Inl (e, rs)
      | Inr x \<Rightarrow> Inr (rs, modelResponseText @ [CHR 0x0A] @ before @ x @ after))"

definition dispatch ::
  "platform \<Rightarrow> string \<Rightarrow> int \<Rightarrow> functionCall \<Rightarrow> pending \<times> string \<Rightarrow>
     (js_error \<times> pending) + (pending \<times> string)" where
  "dispatch P uuid now fc st =
     (case st of (rs, modelResponseText) \<Rightarrow>
      if name fc = ''create_task'' then
        (if args fc = JNull then Inl (cannot_read ''null'' ''title'', rs)
         else
           (case addTask uuid now (get_prop (args fc) ''title'') (get_prop (args fc) ''category'')
                   (get_prop (args fc) ''duration'') (get_prop (args fc) ''notes'')
                   (get_prop (args fc) ''alarmTime'') rs of
              (t, rs') \<Rightarrow>
                acknowledge P (''[System: Created task '' @ [CHR 0x22]) (title t)
                  ([CHR 0x22] @ '']'') (rs', modelResponseText)))
      else if name fc = ''update_task_notes'' then
        (if args fc = JNull
         then Inl (cannot_read ''null'' ''taskTitle'',
                   setTasks (update_notes P (args fc)) rs)
         else acknowledge P (''[System: Optimized '' @ [CHR 0x22])
                (get_prop (args fc) ''taskTitle'') ([CHR 0x22] @ '']'')
                (setTasks (update_notes P (args fc)) rs, modelResponseText))
      else if name fc = ''set_alarm'' then
        (if args fc = JNull
         then Inl (cannot_read ''null'' ''time'', setTasks (set_alarm P (args fc)) rs)
         else acknowledge P ''[System: Reminder set for '' (get_prop (args fc) ''time'') '']''
                (setTasks (set_alarm P (args fc)) rs, modelResponseText))
      else Inr (rs, modelResponseText))"

text \<open>
  The loop \<open>for (const part of parts)\<close>, lines 147 to 170. \<open>uuid k\<close> and \<open>clock k\<close>
  are what \<open>crypto.randomUUID()\<close> and \<open>Date.now()\<close> return in the \<open>k\<close>-th call
  of \<open>addTask\<close> of this run; \<open>k\<close> counts the calls made so far.
\<close>

fun for_parts ::
  "platform \<Rightarrow> (nat \<Rightarrow> string) \<Rightarrow> (nat \<Rightarrow> int) \<Rightarrow> nat \<Rightarrow> part list \<Rightarrow> pending \<times> string
     \<Rightarrow> (js_error \<times> pending) + (pending \<times> string)" where
  "for_parts P uuid clock k [] st = Inr st"
| "for_parts P uuid clock k (p # ps) (rs, modelResponseText) =
     (let txt = (case text' p of
                   None \<Rightarrow> modelResponseText
                 | Some t \<Rightarrow> if t \<noteq> [] then modelResponseText @ t else modelResponseText)
      in case functionCall p of
           None \<Rightarrow> for_parts P uuid clock k ps (rs, txt)
         | Some fc \<Rightarrow>
             (case dispatch P (uuid k) (clock k) fc (rs, txt) of
                Inl thrown \<Rightarrow> Inl thrown
              | Inr st' \<Rightarrow>
                  for_parts P uuid clock (if name fc = ''create_task'' then Suc k else k) ps st'))"

section \<open>Providers (aiService.ts)\<close>

subsection \<open>Configuration and provider selection\<close>

text \<open>
  \<open>localStorage\<close> is a map from keys to strings; \<open>getItem\<close> of a missing key is
  \<open>null\<close>, here \<open>None\<close>. \<open>a || b\<close> takes \<open>b\<close> when \<open>a\<close> is \<open>null\<close> or the
  empty string.
\<close>

type_synonym Storage = "string \<Rightarrow> string option"

definition or_js :: "string option \<Rightarrow> string option \<Rightarrow> string option" where
  "or_js a b = (case a of None \<Rightarrow> b | Some x \<Rightarrow> if x \<noteq> [] then Some x else b)"

definition or_default :: "string option \<Rightarrow> string \<Rightarrow> string" where
  "or_default a d = (case a of None \<Rightarrow> d | Some x \<Rightarrow> if x \<noteq> [] then x else d)"

datatype AIProvider = GeminiProvider string | OpenAIProvider string | MockProvider string

definition getApiKey :: "platform \<Rightarrow> Storage \<Rightarrow> string \<Rightarrow> string option" where
  "getApiKey P localStorage provider =
     (if toLowerCase P provider = ''openai''
      then or_js (or_js (localStorage ''openai_api_key'') (localStorage ''aiApiKey'')) None
      else or_js (or_js (localStorage ''gemini_api_key'') (localStorage ''aiApiKey'')) None)"

text \<open>
  \<open>createProvider\<close>, lines 292 to 315. The object literal with the two throwing
  methods is \<open>MockProvider aiProvider\<close>; it keeps the provider name its messages use.
\<close>

definition createProvider :: "platform \<Rightarrow> Storage \<Rightarrow> AIProvider" where
  "createProvider P localStorage =
     (let aiProvider = or_default (localStorage ''aiProvider'') ''gemini'' in
      case getApiKey P localStorage aiProvider of
        None \<Rightarrow> MockProvider aiProvider
      | Some apiKey \<Rightarrow>
          if toLowerCase P aiProvider = ''openai'' then OpenAIProvider apiKey
          else GeminiProvider apiKey)"

record AIService =
  provider :: AIProvider

definition new_AIService :: "platform \<Rightarrow> Storage \<Rightarrow> AIService" where
  "new_AIService P localStorage = \<lparr> provider = createProvider P localStorage \<rparr>"

subsection \<open>The vendors' replies\<close>

text \<open>
  What \<open>fetch\<close> resolves to: the fields of the response the adapters read, with
  \<open>body\<close> the value of \<open>response.json()\<close>. \<open>Inl\<close> is a rejected \<open>fetch\<close>.
\<close>

record 'b Response =
  ok :: bool
  status :: nat
  statusText :: string
  body :: 'b

record tool_call =
  function_name :: string
  function_arguments :: string

record openai_message =
  content :: "string option"
  tool_calls :: "tool_call list option"

text \<open>A choice is represented by its \<open>message\<close>.\<close>

record openai_data =
  choices :: "openai_message list"

record network =
  gemini_fetch :: "js_error + AIResponse Response"
  openai_fetch :: "js_error + openai_data Response"

subsection \<open>generateContent and generateJSON\<close>

definition http_error :: "string \<Rightarrow> 'b Response \<Rightarrow> js_error" where
  "http_error vendor response =
     Error (vendor @ '' API error: '' @ string_of_nat (status response) @ '' ''
              @ statusText response)"

definition Gemini_generateContent :: "js_error + AIResponse Response \<Rightarrow> js_error + AIResponse" where
  "Gemini_generateContent fetched =
     (case fetched of
        Inl e \<Rightarrow> Inl e
      | Inr response \<Rightarrow>
          if \<not> ok response then Inl (http_error ''Gemini'' response)
          else Inr (body response))"

text \<open>
  \<open>tool_calls.map(call => ...)\<close>, lines 247 to 252: the first \<open>JSON.parse\<close> that
  throws ends the whole \<open>map\<close>.
\<close>

fun tool_calls_map :: "tool_call list \<Rightarrow> js_error + part list" where
  "tool_calls_map [] = Inr []"
| "tool_calls_map (call # calls) =
     (case JSON_parse_or_throw (function_arguments call) of
        Inl e \<Rightarrow> Inl e
      | Inr a \<Rightarrow>
          (case tool_calls_map calls of
             Inl e \<Rightarrow> Inl e
           | Inr ps \<Rightarrow>
               Inr (\<lparr> text' = None,
                      functionCall = Some \<lparr> name = function_name call, args = a \<rparr> \<rparr> # ps)))"

definition OpenAI_generateContent :: "js_error + openai_data Response \<Rightarrow> js_error + AIResponse" where
  "OpenAI_generateContent fetched =
     (case fetched of
        Inl e \<Rightarrow> Inl e
      | Inr response \<Rightarrow>
          if \<not> ok response then Inl (http_error ''OpenAI'' response)
          else
            (case choices (body response) of
               [] \<Rightarrow> Inl (TypeError ''Cannot read properties of undefined'')
             | msg # _ \<Rightarrow>
                 (case tool_calls msg of
                    Some calls \<Rightarrow>
                      (case tool_calls_map calls of
                         Inl e \<Rightarrow> Inl e
                       | Inr ps \<Rightarrow> Inr \<lparr> candidates = [ps] \<rparr>)
                  | None \<Rightarrow>
                      Inr \<lparr> candidates = [[\<lparr> text' = content msg, functionCall = None \<rparr>]] \<rparr>)))"

definition credential_missing :: "string \<Rightarrow> js_error" where
  "credential_missing aiProvider =
     Error (''API key not found for provider: '' @ aiProvider
              @ ''. Please configure your API settings in the Settings panel.'')"

definition generateContent :: "AIProvider \<Rightarrow> network \<Rightarrow> js_error + AIResponse" where
  "generateContent p net =
     (case p of
        GeminiProvider apiKey \<Rightarrow> Gemini_generateContent (gemini_fetch net)
      | OpenAIProvider apiKey \<Rightarrow> OpenAI_generateContent (openai_fetch net)
      | MockProvider aiProvider \<Rightarrow> Inl (credential_missing aiProvider))"

text \<open>
  \<open>generateJSON\<close>: \<open>JSON.parse\<close> of the first text part (vendor A) or of the message
  content (vendor B). \<open>JSON.parse\<close> turns its argument into a string first, so an
  absent text is read as \<open>undefined\<close> and a \<open>null\<close> content as \<open>null\<close>.
\<close>

definition Gemini_generateJSON :: "js_error + AIResponse Response \<Rightarrow> js_error + json" where
  "Gemini_generateJSON fetched =
     (case fetched of
        Inl e \<Rightarrow> Inl e
      | Inr response \<Rightarrow>
          if \<not> ok response then Inl (http_error ''Gemini'' response)
          else
            (case candidates (body response) of
               [] \<Rightarrow> Inl (TypeError ''Cannot read properties of undefined'')
             | ps # _ \<Rightarrow>
                 (case ps of
                    [] \<Rightarrow> Inl (TypeError ''Cannot read properties of undefined'')
                  | p # _ \<Rightarrow>
                      JSON_parse_or_throw (case text' p of None \<Rightarrow> ''undefined'' | Some t \<Rightarrow> t))))"

definition OpenAI_generateJSON :: "js_error + openai_data Response \<Rightarrow> js_error + json" where
  "OpenAI_generateJSON fetched =
     (case fetched of
        Inl e \<Rightarrow> Inl e
      | Inr response \<Rightarrow>
          if \<not> ok response then Inl (http_error ''OpenAI'' response)
          else
            (case choices (body response) of
               [] \<Rightarrow> Inl (TypeError ''Cannot read properties of undefined'')
             | msg # _ \<Rightarrow>
                 JSON_parse_or_throw (case content msg of None \<Rightarrow> ''null'' | Some t \<Rightarrow> t)))"

definition generateJSON :: "AIProvider \<Rightarrow> network \<Rightarrow> js_error + json" where
  "generateJSON p net =
     (case p of
        GeminiProvider apiKey \<Rightarrow> Gemini_generateJSON (gemini_fetch net)
      | OpenAIProvider apiKey \<Rightarrow> OpenAI_generateJSON (openai_fetch net)
      | MockProvider aiProvider \<Rightarrow> Inl (credential_missing aiProvider))"

text \<open>
  \<open>getAIResponse\<close> and \<open>optimizeSchedule\<close> pass the call to the provider of the
  service and rethrow what it throws.
\<close>

definition getAIResponse :: "AIService \<Rightarrow> network \<Rightarrow> js_error + AIResponse" where
  "getAIResponse svc net = generateContent (provider svc) net"

definition optimizeSchedule :: "AIService \<Rightarrow> network \<Rightarrow> js_error + json" where
  "optimizeSchedule svc net = generateJSON (provider svc) net"

section \<open>handleAiCommand (App.tsx, lines 132 to 187)\<close>

text \<open>The \<open>catch\<close> block, lines 173 to 183.\<close>

definition errorMessage :: "js_error \<Rightarrow> string" where
  "errorMessage err =
     (if message err \<noteq> [] \<and> includes_str (message err) ''API key''
      then ''API key not configured. Please go to Settings to add your API key.''
      else if message err \<noteq> [] then ''Error: '' @ message err
      else ''Error connecting to AI. Please try again.'')"

definition catch_block :: "js_error \<Rightarrow> app \<Rightarrow> app" where
  "catch_block err s =
     s\<lparr> chatHistory := chatHistory s @ [ChatMessage model (errorMessage err)],
        isAiLoading := False \<rparr>"

definition reply_block :: "string \<Rightarrow> app \<Rightarrow> app" where
  "reply_block modelResponseText s =
     s\<lparr> chatHistory := chatHistory s @
          [ChatMessage model
             (if modelResponseText \<noteq> [] then modelResponseText
              else ''I've updated your schedule accordingly.'')],
        isAiLoading := False \<rparr>"

text \<open>
  The handler, from the state of the current render to the pending state it leaves.
\<close>

definition handleAiCommand ::
  "platform \<Rightarrow> (nat \<Rightarrow> string) \<Rightarrow> (nat \<Rightarrow> int) \<Rightarrow> AIService \<Rightarrow> network \<Rightarrow> string option
     \<Rightarrow> app \<Rightarrow> pending" where
  "handleAiCommand P uuid clock svc net customMessage s =
     (let finalInput = or_default customMessage (userInput s) in
      if trim P finalInput = [] then Inr s
      else
        let s1 = s\<lparr> chatHistory := chatHistory s @ [ChatMessage user finalInput],
                    userInput := [],
                    showSuggestions := False,
                    isAiLoading := True \<rparr>
        in case getAIResponse svc net of
             Inl err \<Rightarrow> Inr (catch_block err s1)
           | Inr response \<Rightarrow>
               (case candidates response of
                  [] \<Rightarrow> Inr (catch_block (cannot_read ''undefined'' ''content'') s1)
                | parts # _ \<Rightarrow>
                    (case for_parts P uuid clock 0 parts (Inr s1, []) of
                       Inl (err, rs) \<Rightarrow> map_sum id (catch_block err) rs
                     | Inr (rs, modelResponseText) \<Rightarrow>
                         map_sum id (reply_block modelResponseText) rs)))"

section \<open>Loading the persisted state (App.tsx, lines 25 to 42)\<close>

text \<open>
  \<open>saved ? JSON.parse(saved) : dflt\<close>. The parsed value is used unchecked as the
  state, so it stays a \<open>json\<close> value here.
\<close>

definition load_saved :: "Storage \<Rightarrow> string \<Rightarrow> json \<Rightarrow> js_error + json" where
  "load_saved localStorage key dflt =
     (case localStorage key of
        None \<Rightarrow> Inr dflt
      | Some saved \<Rightarrow> if saved \<noteq> [] then JSON_parse_or_throw saved else Inr dflt)"

definition default_profile :: "int \<Rightarrow> json" where
  "default_profile now =
     JObj [(''name'', JStr ''User''), (''mantra'', JStr ''Stay focused, stay calm.''),
           (''joinedDate'', JNum now 0)]"

definition load_tasks :: "Storage \<Rightarrow> js_error + json" where
  "load_tasks localStorage = load_saved localStorage ''zentime-tasks-v2'' (JArr [])"

definition load_profile :: "int \<Rightarrow> Storage \<Rightarrow> js_error + json" where
  "load_profile now localStorage = load_saved localStorage ''zentime-profile'' (default_profile now)"

definition load_generalNotes :: "Storage \<Rightarrow> js_error + json" where
  "load_generalNotes localStorage = load_saved localStorage ''zentime-general-notes'' (JArr [])"

record persisted =
  p_tasks :: json
  p_profile :: json
  p_generalNotes :: json
  p_feedbackNotes :: string

text \<open>
  The state initialisers of the first render of \<open>App\<close>, in source order. An
  exception of an initialiser leaves the render, and the application does not start.
\<close>

definition App_init :: "int \<Rightarrow> Storage \<Rightarrow> js_error + persisted" where
  "App_init now localStorage =
     (case load_tasks localStorage of
        Inl e \<Rightarrow> Inl e
      | Inr t \<Rightarrow>
          (case load_profile now localStorage of
             Inl e \<Rightarrow> Inl e
           | Inr p \<Rightarrow>
               (case load_generalNotes localStorage of
                  Inl e \<Rightarrow> Inl e
                | Inr g \<Rightarrow>
                    Inr \<lparr> p_tasks = t, p_profile = p, p_generalNotes = g,
                          p_feedbackNotes = or_default (localStorage ''zentime-feedback'') [] \<rparr>)))"

section \<open>The alarm tick (App.tsx, lines 74 to 91)\<close>

text \<open>
  \<open>toLocaleTimeString('en-GB', {hour: '2-digit', minute: '2-digit'})\<close> of a time
  with the given hours and minutes.
\<close>

definition two_digit :: "nat \<Rightarrow> string" where
  "two_digit n = (if n < 10 then ''0'' @ string_of_nat n else string_of_nat n)"

definition timeStr :: "nat \<Rightarrow> nat \<Rightarrow> string" where
  "timeStr h m = two_digit h @ '':'' @ two_digit m"

definition rings_at :: "string \<Rightarrow> Task \<Rightarrow> bool" where
  "rings_at ts t =
     (alarmEnabled t = Some True \<and> reminderTime t = Some (JStr ts) \<and> \<not> completed t)"

text \<open>
  One run of the interval callback at the wall-clock time \<open>h:m\<close>, on the tasks and
  the active alarm of the current render. The boolean tells whether the tone was started.
  \<open>setCurrentTime\<close>, which only feeds the display, is left out.
\<close>

definition alarm_tick :: "nat \<Rightarrow> nat \<Rightarrow> app \<Rightarrow> app \<times> bool" where
  "alarm_tick h m s =
     (case find (rings_at (timeStr h m)) (tasks s) of
        None \<Rightarrow> (s, False)
      | Some ringing \<Rightarrow>
          if map_option id' (activeAlarm s) \<noteq> Some (id' ringing)
          then (s\<lparr> activeAlarm := Some ringing \<rparr>, True)
          else (s, False))"

text \<open>The DISMISS button, line 654.\<close>

definition dismiss :: "app \<Rightarrow> app" where
  "dismiss s = s\<lparr> activeAlarm := None \<rparr>"

section \<open>Sample inputs\<close>

definition sample_uuid :: "nat \<Rightarrow> string" where
  "sample_uuid k = ''task-'' @ string_of_nat k"

definition sample_clock :: "nat \<Rightarrow> int" where
  "sample_clock k = 1700000000000 + int k"

definition report :: Task where
  "report = \<lparr> id' = ''t1'', title = Some (JStr ''Write Report''),
               notes' = Some (JStr ''outline''), category = Some (JStr ''Education''),
               priority = MEDIUM, estimatedDuration = Some (JNum 30 0),
               reminderTime = None, alarmEnabled = Some False, completed = False,
               createdAt = 1 \<rparr>"

definition draft :: Task where
  "draft = \<lparr> id' = ''t2'', title = Some (JStr ''Write Report Draft''),
              notes' = Some (JStr ''first pass''), category = Some (JStr ''Education''),
              priority = MEDIUM, estimatedDuration = Some (JNum 45 0),
              reminderTime = None, alarmEnabled = Some False, completed = False,
              createdAt = 2 \<rparr>"

definition thought :: GeneralNote where
  "thought = \<lparr> note_id = ''n1'', note_content = ''New productivity thought...'',
                note_createdAt = 3, color = Some ''#d1e8e2'' \<rparr>"

definition sample_app :: app where
  "sample_app = \<lparr> tasks = [report, draft], generalNotes = [thought], chatHistory = [],
                  userInput = [], showSuggestions = False, isAiLoading = False,
                  activeAlarm = None \<rparr>"

definition delete_call :: functionCall where
  "delete_call = \<lparr> name = ''delete_task'', args = JObj [(''taskTitle'', JStr ''Write Report'')] \<rparr>"

definition update_call :: functionCall where
  "update_call = \<lparr> name = ''update_task_notes'',
                   args = JObj [(''taskTitle'', JStr ''write report''), (''notes'', JStr ''plan'')] \<rparr>"

definition alarm_call :: functionCall where
  "alarm_call = \<lparr> name = ''set_alarm'',
                  args = JObj [(''taskTitle'', JStr ''write report''), (''time'', JStr ''09:00'')] \<rparr>"

definition zero_duration_call :: functionCall where
  "zero_duration_call =
     \<lparr> name = ''update_task_notes'',
       args = JObj [(''taskTitle'', JStr ''report draft''), (''notes'', JStr ''plan''),
                    (''duration'', JNum 0 0)] \<rparr>"

definition empty_alarm_call :: functionCall where
  "empty_alarm_call =
     \<lparr> name = ''create_task'',
       args = JObj [(''title'', JStr ''X''), (''category'', JStr ''Private''),
                    (''duration'', JNum 30 0), (''alarmTime'', JStr [])] \<rparr>"

definition create_call :: functionCall where
  "create_call =
     \<lparr> name = ''create_task'',
       args = JObj [(''title'', JStr ''X''), (''category'', JStr ''Private''),
                    (''duration'', JNum 30 0), (''alarmTime'', JStr ''09:00'')] \<rparr>"

definition null_create_call :: functionCall where
  "null_create_call = \<lparr> name = ''create_task'', args = JNull \<rparr>"



definition created_X :: Task where
  "created_X = \<lparr> id' = ''task-0'', title = Some (JStr ''X''), notes' = Some (JStr []),
                  category = Some (JStr ''Private''), priority = MEDIUM,
                  estimatedDuration = Some (JNum 30 0), reminderTime = Some (JStr ''09:00''),
                  alarmEnabled = Some True, completed = False, createdAt = 1700000000000 \<rparr>"

subsection \<open>The reply text as the specification words it\<close>




text \<open>The pending state that a dispatch or the loop leaves, thrown or not.\<close>

definition pending_of :: "(js_error \<times> pending) + (pending \<times> string) \<Rightarrow> pending" where
  "pending_of res = (case res of Inl (e, rs) \<Rightarrow> rs | Inr (rs, r) \<Rightarrow> rs)"

text \<open>The title of a task is a string that contains \<open>tt\<close>, letter case aside.\<close>

definition title_includes :: "platform \<Rightarrow> string \<Rightarrow> Task \<Rightarrow> bool" where
  "title_includes P tt t =
     (case title t of
        Some (JStr x) \<Rightarrow> includes_str (toLowerCase P x) (toLowerCase P tt)
      | _ \<Rightarrow> False)"

subsection \<open>Sample replies of vendor B\<close>

definition create_arguments :: string where
  "create_arguments =
     ''{'' @ [CHR 0x22] @ ''title'' @ [CHR 0x22] @ '':'' @ [CHR 0x22] @ ''X'' @ [CHR 0x22] @ '',''
       @ [CHR 0x22] @ ''category'' @ [CHR 0x22] @ '':'' @ [CHR 0x22] @ ''Private'' @ [CHR 0x22] @ '',''
       @ [CHR 0x22] @ ''duration'' @ [CHR 0x22] @ '':30,''
       @ [CHR 0x22] @ ''alarmTime'' @ [CHR 0x22] @ '':'' @ [CHR 0x22] @ ''09:00'' @ [CHR 0x22] @ ''}''"

definition good_call :: tool_call where
  "good_call = \<lparr> function_name = ''create_task'', function_arguments = create_arguments \<rparr>"

definition bad_call :: tool_call where
  "bad_call = \<lparr> function_name = ''update_task_notes'', function_arguments = ''{oops'' \<rparr>"

definition openai_reply :: "tool_call list option \<Rightarrow> js_error + openai_data Response" where
  "openai_reply calls =
     Inr \<lparr> ok = True, status = 200, statusText = ''OK'',
           body = \<lparr> choices = [\<lparr> content = Some ''On it.'', tool_calls = calls \<rparr>] \<rparr> \<rparr>"

definition no_gemini :: "js_error + AIResponse Response" where
  "no_gemini = Inl (TypeError ''Failed to fetch'')"

definition bad_net :: network where
  "bad_net = \<lparr> gemini_fetch = no_gemini, openai_fetch = openai_reply (Some [good_call, bad_call]) \<rparr>"

definition good_net :: network where
  "good_net = \<lparr> gemini_fetch = no_gemini, openai_fetch = openai_reply (Some [good_call]) \<rparr>"

definition openai_svc :: AIService where
  "openai_svc = \<lparr> provider = OpenAIProvider ''sk-test'' \<rparr>"

subsection \<open>Sample failures, stores and alarm states\<close>

definition forbidden :: "AIResponse Response" where
  "forbidden = \<lparr> ok = False, status = 403, statusText = ''API key not valid'',
                  body = \<lparr> candidates = [] \<rparr> \<rparr>"



definition forbidden_net :: network where
  "forbidden_net = \<lparr> gemini_fetch = Inr forbidden, openai_fetch = openai_reply None \<rparr>"

definition api_key_text :: string where
  "api_key_text = ''API key not configured. Please go to Settings to add your API key.''"

definition empty_storage :: Storage where
  "empty_storage = (\<lambda>k. None)"

definition blank_storage :: Storage where
  "blank_storage = (\<lambda>k. Some [])"

definition corrupt_storage :: Storage where
  "corrupt_storage = (\<lambda>k. if k = ''zentime-tasks-v2'' then Some ''{oops'' else None)"

definition wake :: Task where
  "wake = \<lparr> id' = ''a1'', title = Some (JStr ''Wake up''), notes' = Some (JStr []),
             category = Some (JStr ''Private''), priority = MEDIUM,
             estimatedDuration = Some (JNum 5 0), reminderTime = Some (JStr ''09:00''),
             alarmEnabled = Some True, completed = False, createdAt = 1 \<rparr>"

definition stretch :: Task where
  "stretch = \<lparr> id' = ''a2'', title = Some (JStr ''Stretch''), notes' = Some (JStr []),
                category = Some (JStr ''Private''), priority = MEDIUM,
                estimatedDuration = Some (JNum 10 0), reminderTime = Some (JStr ''09:00''),
                alarmEnabled = Some True, completed = False, createdAt = 2 \<rparr>"

definition alarm_app :: app where
  "alarm_app = \<lparr> tasks = [wake, stretch], generalNotes = [], chatHistory = [],
                 userInput = [], showSuggestions = False, isAiLoading = False,
                 activeAlarm = None \<rparr>"

section \<open>Properties of the dispatcher\<close>

text \<open>
  Claim C5. A function call whose name is none of \<open>create_task\<close>,
  \<open>update_task_notes\<close> and \<open>set_alarm\<close> changes nothing, whatever its arguments are:
  the dispatch returns the pending state (tasks, notes and every other field) and the
  reply text as they were, and the loop goes on with the remaining parts from the same
  state and the same text, so no acknowledgment line is appended for that call.
\<close>

theorem unrecognized_name_ignored:
  assumes "name fc \<noteq> ''create_task''"
    and "name fc \<noteq> ''update_task_notes''"
    and "name fc \<noteq> ''set_alarm''"
  shows "dispatch P uuid now fc (rs, r) = Inr (rs, r)
       \<and> for_parts P u c k (\<lparr>text' = None, functionCall = Some fc\<rparr> # ps) (rs, r)
           = for_parts P u c k ps (rs, r)"
  using assms by (simp add: dispatch_def)

theorem unrecognized_name_ignored_witness:
  "name delete_call \<noteq> ''create_task'' \<and> name delete_call \<noteq> ''update_task_notes''
   \<and> name delete_call \<noteq> ''set_alarm''
   \<and> dispatch latin1 ''task-0'' 0 delete_call (Inr sample_app, ''Hi'') = Inr (Inr sample_app, ''Hi'')
   \<and> for_parts latin1 sample_uuid sample_clock 0
        [\<lparr>text' = None, functionCall = Some delete_call\<rparr>] (Inr sample_app, ''Hi'')
       = Inr (Inr sample_app, ''Hi'')"
  using unrecognized_name_ignored [of delete_call latin1 "''task-0''" 0 "Inr sample_app" "''Hi''"
      sample_uuid sample_clock 0 "[]"]
  by (simp add: delete_call_def)

subsection \<open>Fuzzy lookup by title\<close>

lemma title_matches_strings:
  assumes "title t = Some (JStr x)" and "get_prop a ''taskTitle'' = Some (JStr tt)"
  shows "title_matches P a t = Inr (title_includes P tt t)"
proof -
  from assms(2) have "a \<noteq> JNull" by (auto simp: get_prop_def)
  with assms show ?thesis
    by (simp add: title_matches_def lower_case_def title_includes_def)
qed

lemma map_matching_strings:
  assumes "\<forall>t \<in> set prev. \<exists>x. title t = Some (JStr x)"
    and "get_prop a ''taskTitle'' = Some (JStr tt)"
  shows "map_matching P a change prev
           = Inr (map (\<lambda>t. if title_includes P tt t then change t else t) prev)"
  using assms(1)
proof (induction prev)
  case Nil
  then show ?case by simp
next
  case (Cons t prev)
  then obtain x where "title t = Some (JStr x)" by auto
  from title_matches_strings [OF this assms(2)] Cons show ?case by simp
qed

lemma update_call_title: "get_prop (args update_call) ''taskTitle'' = Some (JStr ''write report'')"
  by (simp add: update_call_def get_prop_def)

lemma alarm_call_title: "get_prop (args alarm_call) ''taskTitle'' = Some (JStr ''write report'')"
  by (simp add: alarm_call_def get_prop_def)

lemma includes_report: "title_includes latin1 ''write report'' report"
  unfolding title_includes_def report_def latin1_def by code_simp

lemma includes_draft: "title_includes latin1 ''write report'' draft"
  unfolding title_includes_def draft_def latin1_def by code_simp

lemma sample_titles: "\<forall>t \<in> set (tasks sample_app). \<exists>x. title t = Some (JStr x)"
  by (simp add: sample_app_def report_def draft_def)

text \<open>
  Claim C1, as stated: of several tasks whose titles contain \<open>taskTitle\<close>, only the
  first in stored order is mutated. The updater is a \<open>map\<close> over the whole list, so
  this fails: with the tasks "Write Report" and "Write Report Draft" (in that order),
  \<open>update_task_notes\<close> with \<open>taskTitle = "write report"\<close> overwrites the notes of
  both, and the second task is no longer what it was.
\<close>

theorem first_match_only_counterexample:
  "dispatch latin1 ''task-0'' 0 update_call (Inr sample_app, [])
     = Inr (Inr (sample_app\<lparr>tasks := [report\<lparr>notes' := Some (JStr ''plan'')\<rparr>,
                                          draft\<lparr>notes' := Some (JStr ''plan'')\<rparr>]\<rparr>),
            [CHR 0x0A] @ ''[System: Optimized '' @ [CHR 0x22] @ ''write report''
              @ [CHR 0x22] @ '']'')
   \<and> tasks sample_app = [report, draft]
   \<and> draft\<lparr>notes' := Some (JStr ''plan'')\<rparr> \<noteq> draft"
proof -
  have u: "update_notes latin1 (args update_call) (tasks sample_app)
      = Inr [report\<lparr>notes' := Some (JStr ''plan'')\<rparr>, draft\<lparr>notes' := Some (JStr ''plan'')\<rparr>]"
    unfolding update_notes_def map_matching_strings [OF sample_titles update_call_title]
    using includes_report includes_draft
    by (simp add: sample_app_def update_call_def get_prop_def)
  have d: "dispatch latin1 ''task-0'' 0 update_call (Inr sample_app, [])
     = Inr (Inr (sample_app\<lparr>tasks := [report\<lparr>notes' := Some (JStr ''plan'')\<rparr>,
                                          draft\<lparr>notes' := Some (JStr ''plan'')\<rparr>]\<rparr>),
            [CHR 0x0A] @ ''[System: Optimized '' @ [CHR 0x22] @ ''write report''
              @ [CHR 0x22] @ '']'')"
    using u update_call_title
    by (simp add: dispatch_def setTasks_def acknowledge_def to_string_def)
      (simp add: update_call_def)
  have t: "tasks sample_app = [report, draft]" by (simp add: sample_app_def)
  have n: "draft\<lparr>notes' := Some (JStr ''plan'')\<rparr> \<noteq> draft" by (simp add: draft_def)
  from d t n show ?thesis by simp
qed

text \<open>
  Claim C1, amended: for a dispatched \<open>update_task_notes\<close> or \<open>set_alarm\<close> whose
  \<open>taskTitle\<close> is a string, on stored tasks whose titles are strings, the task list
  keeps its length and order, and at every position the task is: if its title contains
  \<open>taskTitle\<close>, letter case aside, the old task with only the notes replaced by the
  \<open>notes\<close> argument and the duration by a truthy \<open>duration\<close> argument, respectively
  with only the reminder time replaced by the \<open>time\<close> argument and the alarm enabled;
  and the old task unchanged otherwise. Every matching task is mutated, not only the first.
\<close>

theorem every_matching_task_mutated:
  assumes "i < length (tasks s)"
    and "\<forall>t \<in> set (tasks s). \<exists>x. title t = Some (JStr x)"
    and "get_prop (args fc) ''taskTitle'' = Some (JStr tt)"
  shows "(name fc = ''update_task_notes'' \<longrightarrow>
            (\<exists>ts r'. dispatch P uuid now fc (Inr s, r) = Inr (Inr (s\<lparr>tasks := ts\<rparr>), r')
               \<and> length ts = length (tasks s)
               \<and> ts ! i =
                   (if title_includes P tt (tasks s ! i)
                    then (tasks s ! i)
                           \<lparr>notes' := get_prop (args fc) ''notes'',
                            estimatedDuration :=
                              (if truthy (get_prop (args fc) ''duration'')
                               then get_prop (args fc) ''duration''
                               else estimatedDuration (tasks s ! i))\<rparr>
                    else tasks s ! i)))
       \<and> (name fc = ''set_alarm'' \<longrightarrow>
            (\<exists>ts. pending_of (dispatch P uuid now fc (Inr s, r)) = Inr (s\<lparr>tasks := ts\<rparr>)
               \<and> length ts = length (tasks s)
               \<and> ts ! i =
                   (if title_includes P tt (tasks s ! i)
                    then (tasks s ! i)\<lparr>reminderTime := get_prop (args fc) ''time'',
                                        alarmEnabled := Some True\<rparr>
                    else tasks s ! i)))"
proof -
  from assms(3) have nn: "args fc \<noteq> JNull" by (auto simp: get_prop_def)
  note mm = map_matching_strings [OF assms(2,3)]
  show ?thesis
    using assms(1) nn assms(3)
    by (auto simp: dispatch_def setTasks_def update_notes_def set_alarm_def mm acknowledge_def
        to_string_def pending_of_def split: sum.splits)
qed

theorem every_matching_task_mutated_witness:
  "(1::nat) < length (tasks sample_app)
   \<and> title report = Some (JStr ''Write Report'') \<and> title draft = Some (JStr ''Write Report Draft'')
   \<and> get_prop (args update_call) ''taskTitle'' = Some (JStr ''write report'')
   \<and> get_prop (args alarm_call) ''taskTitle'' = Some (JStr ''write report'')
   \<and> name update_call = ''update_task_notes'' \<and> name alarm_call = ''set_alarm''
   \<and> title_includes latin1 ''write report'' (tasks sample_app ! 1)
   \<and> (\<exists>ts r'. dispatch latin1 ''task-0'' 0 update_call (Inr sample_app, [])
                  = Inr (Inr (sample_app\<lparr>tasks := ts\<rparr>), r')
          \<and> length ts = 2 \<and> ts ! 1 = draft\<lparr>notes' := Some (JStr ''plan'')\<rparr>)
   \<and> (\<exists>ts. pending_of (dispatch latin1 ''task-0'' 0 alarm_call (Inr sample_app, []))
                  = Inr (sample_app\<lparr>tasks := ts\<rparr>)
          \<and> length ts = 2
          \<and> ts ! 1 = draft\<lparr>reminderTime := Some (JStr ''09:00''), alarmEnabled := Some True\<rparr>)"
proof -
  have len: "(1::nat) < length (tasks sample_app)"
    by (simp add: sample_app_def)
  have t1: "tasks sample_app ! 1 = draft" "tasks sample_app ! Suc 0 = draft"
    by (simp_all add: sample_app_def)
  have m: "title_includes latin1 ''write report'' (tasks sample_app ! 1)"
    by (simp add: t1 includes_draft)
  have nu: "name update_call = ''update_task_notes''" by (simp add: update_call_def)
  have na: "name alarm_call = ''set_alarm''" by (simp add: alarm_call_def)
  have l2: "length (tasks sample_app) = 2" by (simp add: sample_app_def)
  have ti: "title report = Some (JStr ''Write Report'')"
    "title draft = Some (JStr ''Write Report Draft'')"
    by (simp_all add: report_def draft_def)
  have pu: "get_prop (args update_call) ''notes'' = Some (JStr ''plan'')"
    "get_prop (args update_call) ''duration'' = None"
    by (simp_all add: update_call_def get_prop_def)
  have pa: "get_prop (args alarm_call) ''time'' = Some (JStr ''09:00'')"
    by (simp add: alarm_call_def get_prop_def)
  from every_matching_task_mutated [OF len sample_titles update_call_title,
      of latin1 "''task-0''" 0 "[]"]
    every_matching_task_mutated [OF len sample_titles alarm_call_title,
      of latin1 "''task-0''" 0 "[]"]
  show ?thesis
    using len nu na l2 ti pu pa t1 update_call_title alarm_call_title includes_draft
    by simp
qed

subsection \<open>The reply text\<close>




lemma trim_add_X: "trim latin1 ''add X'' = ''add X''"
  unfolding latin1_def by code_simp




lemma create_call_props:
  "args create_call \<noteq> JNull"
  "get_prop (args create_call) ''title'' = Some (JStr ''X'')"
  "get_prop (args create_call) ''category'' = Some (JStr ''Private'')"
  "get_prop (args create_call) ''duration'' = Some (JNum 30 0)"
  "get_prop (args create_call) ''notes'' = None"
  "get_prop (args create_call) ''alarmTime'' = Some (JStr ''09:00'')"
  by (simp_all add: create_call_def get_prop_def)

lemma sample_uuid_0: "sample_uuid 0 = ''task-0''"
  by (simp add: sample_uuid_def string_of_nat.simps digit_char_def)

lemma create_call_run:
  "dispatch latin1 ''task-0'' 1700000000000 create_call (Inr s, r)
     = Inr (Inr (s\<lparr>tasks := tasks s @ [created_X]\<rparr>),
            r @ [CHR 0x0A] @ ''[System: Created task '' @ [CHR 0x22] @ ''X'' @ [CHR 0x22] @ '']'')"
  using create_call_props
  by (simp add: dispatch_def addTask_def newTask_def setTasks_def acknowledge_def to_string_def
        created_X_def)
    (simp add: create_call_def)


subsection \<open>Creating a task\<close>

lemma empty_alarm_call_props:
  "args empty_alarm_call \<noteq> JNull"
  "get_prop (args empty_alarm_call) ''title'' = Some (JStr ''X'')"
  "get_prop (args empty_alarm_call) ''category'' = Some (JStr ''Private'')"
  "get_prop (args empty_alarm_call) ''duration'' = Some (JNum 30 0)"
  "get_prop (args empty_alarm_call) ''notes'' = None"
  "get_prop (args empty_alarm_call) ''alarmTime'' = Some (JStr [])"
  by (simp_all add: empty_alarm_call_def get_prop_def)

text \<open>
  Claim C4, as stated: the alarm-enabled flag of a created task is true if and only if an
  \<open>alarmTime\<close> argument was supplied. \<open>!!alarmTime\<close> is false for the empty
  string: a \<open>create_task\<close> whose arguments carry \<open>"alarmTime": ""\<close> supplies the
  argument, and the created task has the alarm disabled.
\<close>

theorem alarm_supplied_counterexample:
  "get_prop (args empty_alarm_call) ''alarmTime'' = Some (JStr [])
   \<and> dispatch latin1 ''task-0'' 7 empty_alarm_call (Inr sample_app, [])
     = Inr (Inr (sample_app\<lparr>tasks := [report, draft,
               \<lparr> id' = ''task-0'', title = Some (JStr ''X''), notes' = Some (JStr []),
                 category = Some (JStr ''Private''), priority = MEDIUM,
                 estimatedDuration = Some (JNum 30 0), reminderTime = Some (JStr []),
                 alarmEnabled = Some False, completed = False, createdAt = 7 \<rparr>]\<rparr>),
            [CHR 0x0A] @ ''[System: Created task '' @ [CHR 0x22] @ ''X'' @ [CHR 0x22] @ '']'')"
  using empty_alarm_call_props
  by (simp add: dispatch_def addTask_def newTask_def setTasks_def acknowledge_def to_string_def
        sample_app_def)
    (simp add: empty_alarm_call_def)

text \<open>
  Claim C4, amended: a dispatched \<open>create_task\<close> appends a task to the pending
  tasks unless its arguments are \<open>null\<close>, whatever the arguments are otherwise (a
  pending state that already holds the exception of an earlier update keeps it). The
  alarm-enabled flag of every
  task so created is true if and only if the supplied \<open>alarmTime\<close> is truthy: for a
  string, if and only if it is not empty; it is false when no \<open>alarmTime\<close> was
  supplied. The reminder time of the task is the supplied \<open>alarmTime\<close>, and absent
  when none was supplied.
\<close>

theorem alarm_enabled_iff_alarmTime_truthy:
  assumes "name fc = ''create_task''"
  shows "pending_of (dispatch P uuid now fc (Inl e, r)) = Inl e
       \<and> (if args fc = JNull
         then pending_of (dispatch P uuid now fc (Inr s, r)) = Inr s
         else \<exists>t. pending_of (dispatch P uuid now fc (Inr s, r)) = Inr (s\<lparr>tasks := tasks s @ [t]\<rparr>)
                \<and> title t = get_prop (args fc) ''title''
                \<and> reminderTime t = get_prop (args fc) ''alarmTime''
                \<and> alarmEnabled t = Some (truthy (get_prop (args fc) ''alarmTime''))
                \<and> (case get_prop (args fc) ''alarmTime'' of
                      None \<Rightarrow> alarmEnabled t = Some False
                    | Some (JStr a) \<Rightarrow> alarmEnabled t = Some (a \<noteq> [])
                    | Some _ \<Rightarrow> True))"
proof (cases "args fc = JNull")
  case True
  with assms show ?thesis
    by (simp add: dispatch_def pending_of_def addTask_def setTasks_def acknowledge_def
        split: sum.splits)
next
  case False
  let ?al = "get_prop (args fc) ''alarmTime''"
  let ?t = "newTask uuid now (get_prop (args fc) ''title'') (get_prop (args fc) ''category'')
              (get_prop (args fc) ''duration'') (get_prop (args fc) ''notes'') ?al"
  have p: "pending_of (dispatch P uuid now fc (Inr s, r)) = Inr (s\<lparr>tasks := tasks s @ [?t]\<rparr>)"
    using assms False
    by (simp add: dispatch_def addTask_def setTasks_def acknowledge_def pending_of_def
        split: sum.splits)
  have f: "title ?t = get_prop (args fc) ''title''" "reminderTime ?t = ?al"
    "alarmEnabled ?t = Some (truthy ?al)"
    by (simp_all add: newTask_def)
  have c: "case ?al of None \<Rightarrow> alarmEnabled ?t = Some False
           | Some (JStr a) \<Rightarrow> alarmEnabled ?t = Some (a \<noteq> [])
           | Some _ \<Rightarrow> True"
    by (simp add: newTask_def split: option.splits json.splits)
  have q: "pending_of (dispatch P uuid now fc (Inl e, r)) = Inl e"
    using assms False
    by (simp add: dispatch_def pending_of_def addTask_def setTasks_def acknowledge_def
        split: sum.splits)
  show ?thesis
    apply (simp only: False if_False q simp_thms)
    apply (rule_tac x = "?t" in exI)
    using p f c apply blast
    done
qed

theorem alarm_enabled_iff_alarmTime_truthy_witness:
  "name create_call = ''create_task'' \<and> args create_call \<noteq> JNull
   \<and> get_prop (args create_call) ''alarmTime'' = Some (JStr ''09:00'')
   \<and> (\<exists>t. pending_of (dispatch latin1 ''task-0'' 1700000000000 create_call (Inr sample_app, []))
               = Inr (sample_app\<lparr>tasks := tasks sample_app @ [t]\<rparr>)
          \<and> title t = Some (JStr ''X'') \<and> reminderTime t = Some (JStr ''09:00'')
          \<and> alarmEnabled t = Some True)
   \<and> name null_create_call = ''create_task'' \<and> args null_create_call = JNull
   \<and> pending_of (dispatch latin1 ''task-0'' 1700000000000 null_create_call (Inr sample_app, []))
       = Inr sample_app"
proof -
  have n: "name create_call = ''create_task''" by (simp add: create_call_def)
  have m: "name null_create_call = ''create_task''" "args null_create_call = JNull"
    by (simp_all add: null_create_call_def)
  from alarm_enabled_iff_alarmTime_truthy [OF n, where P = latin1 and uuid = "''task-0''"
      and now = 1700000000000 and s = sample_app and r = "[]"]
    alarm_enabled_iff_alarmTime_truthy [OF m(1), where P = latin1 and uuid = "''task-0''"
      and now = 1700000000000 and s = sample_app and r = "[]"]
  show ?thesis using n m create_call_props by (simp add: truthy.simps)
qed

subsection \<open>Updating the duration\<close>

lemma zero_duration_call_props:
  "get_prop (args zero_duration_call) ''taskTitle'' = Some (JStr ''report draft'')"
  "get_prop (args zero_duration_call) ''notes'' = Some (JStr ''plan'')"
  "get_prop (args zero_duration_call) ''duration'' = Some (JNum 0 0)"
  by (simp_all add: zero_duration_call_def get_prop_def)

lemma not_includes_report: "\<not> title_includes latin1 ''report draft'' report"
  unfolding title_includes_def report_def latin1_def by code_simp

lemma includes_draft': "title_includes latin1 ''report draft'' draft"
  unfolding title_includes_def draft_def latin1_def by code_simp

text \<open>
  Claim C8 says that a supplied duration, 0 included, overwrites the estimated duration of
  the matched task. \<open>args.duration || t.estimatedDuration\<close> takes the old value when
  the supplied duration is 0: on the task "Write Report Draft" with an estimated duration
  of 45, \<open>update_task_notes\<close> with \<open>duration = 0\<close> writes the notes and leaves the
  duration at 45.
\<close>

theorem zero_duration_not_written:
  "get_prop (args zero_duration_call) ''duration'' = Some (JNum 0 0)
   \<and> dispatch latin1 ''task-0'' 0 zero_duration_call (Inr sample_app, [])
     = Inr (Inr (sample_app\<lparr>tasks := [report, draft\<lparr>notes' := Some (JStr ''plan'')\<rparr>]\<rparr>),
            [CHR 0x0A] @ ''[System: Optimized '' @ [CHR 0x22] @ ''report draft''
              @ [CHR 0x22] @ '']'')
   \<and> estimatedDuration (draft\<lparr>notes' := Some (JStr ''plan'')\<rparr>) = Some (JNum 45 0)"
proof -
  have r: "title_matches latin1 (args zero_duration_call) report = Inr False"
    using title_matches_strings [OF _ zero_duration_call_props(1), of report "''Write Report''" latin1]
      not_includes_report by (simp add: report_def)
  have d: "title_matches latin1 (args zero_duration_call) draft = Inr True"
    using title_matches_strings [OF _ zero_duration_call_props(1), of draft "''Write Report Draft''" latin1]
      includes_draft' by (simp add: draft_def)
  have u: "update_notes latin1 (args zero_duration_call) (tasks sample_app)
      = Inr [report, draft\<lparr>notes' := Some (JStr ''plan'')\<rparr>]"
    using r d zero_duration_call_props
    by (simp add: update_notes_def sample_app_def rounds_to_zero_def)
  have e: "estimatedDuration (draft\<lparr>notes' := Some (JStr ''plan'')\<rparr>) = Some (JNum 45 0)"
    by (simp add: draft_def)
  show ?thesis
    using u e zero_duration_call_props
    by (simp add: dispatch_def setTasks_def acknowledge_def to_string_def)
      (simp add: zero_duration_call_def)
qed

section \<open>Properties of the vendor-B adapter\<close>

lemma create_arguments_parse: "JSON_parse create_arguments = Some (args create_call)"
  unfolding create_arguments_def create_call_def by code_simp

lemma oops_parse: "JSON_parse ''{oops'' = None"
  by code_simp

lemma tool_calls_map_parts:
  "tool_calls_map calls = Inr ps \<Longrightarrow>
     length ps = length calls \<and> (\<forall>p \<in> set ps. text' p = None \<and> functionCall p \<noteq> None)"
  by (induction calls arbitrary: ps) (auto split: sum.splits)

lemma tool_calls_map_throws:
  "\<exists>call \<in> set calls. JSON_parse (function_arguments call) = None \<Longrightarrow>
     \<exists>e. tool_calls_map calls = Inl e"
proof (induction calls)
  case Nil
  then show ?case by simp
next
  case (Cons call calls)
  show ?case
  proof (cases "JSON_parse (function_arguments call)")
    case None
    then show ?thesis by (simp add: JSON_parse_or_throw_def)
  next
    case (Some a)
    with Cons.prems have "\<exists>c \<in> set calls. JSON_parse (function_arguments c) = None"
      by auto
    from Cons.IH [OF this] obtain e where "tool_calls_map calls = Inl e" ..
    with Some show ?thesis by (simp add: JSON_parse_or_throw_def)
  qed
qed

text \<open>
  Claim C10. Every canonical response that the vendor-B \<open>generateContent\<close> returns has
  one candidate, and its parts are either all function calls without text, or exactly one
  text part without function call. Whenever the message of the reply has tool-call
  entries, the parts are one function-call part per entry and none carries text: the
  content of the message is not in the response.
\<close>

theorem openai_parts_never_mixed:
  assumes "OpenAI_generateContent fetched = Inr resp"
  shows "\<exists>ps. candidates resp = [ps]
           \<and> ((\<forall>p \<in> set ps. text' p = None \<and> functionCall p \<noteq> None)
               \<or> (\<exists>t. ps = [\<lparr> text' = t, functionCall = None \<rparr>]))
           \<and> (\<forall>response msg rest calls.
                 fetched = Inr response \<and> choices (body response) = msg # rest
                 \<and> tool_calls msg = Some calls
                 \<longrightarrow> length ps = length calls \<and> (\<forall>p \<in> set ps. text' p = None))"
  using assms
  by (auto simp: OpenAI_generateContent_def split: sum.splits if_splits list.splits option.splits
      dest!: tool_calls_map_parts)


theorem openai_parts_never_mixed_witness:
  "OpenAI_generateContent (openai_reply (Some [good_call]))
     = Inr \<lparr> candidates = [[\<lparr> text' = None, functionCall = Some create_call \<rparr>]] \<rparr>
   \<and> (\<exists>ps. candidates \<lparr> candidates = [[\<lparr> text' = None, functionCall = Some create_call \<rparr>]] \<rparr>
               = [ps]
             \<and> ((\<forall>p \<in> set ps. text' p = None \<and> functionCall p \<noteq> None)
                 \<or> (\<exists>t. ps = [\<lparr> text' = t, functionCall = None \<rparr>])))"
proof -
  have run: "OpenAI_generateContent (openai_reply (Some [good_call]))
     = Inr \<lparr> candidates = [[\<lparr> text' = None, functionCall = Some create_call \<rparr>]] \<rparr>"
    by (simp add: OpenAI_generateContent_def openai_reply_def good_call_def
          JSON_parse_or_throw_def create_arguments_parse)
      (simp add: create_call_def)
  from openai_parts_never_mixed [OF run] run show ?thesis by blast
qed

subsection \<open>Arguments that are not JSON\<close>

lemma getAIResponse_malformed:
  assumes "provider svc = OpenAIProvider key"
    and "openai_fetch net = Inr response"
    and "ok response"
    and "choices (body response) = msg # rest"
    and "tool_calls msg = Some calls"
    and "\<exists>call \<in> set calls. JSON_parse (function_arguments call) = None"
  shows "\<exists>e. getAIResponse svc net = Inl e"
  using assms tool_calls_map_throws [OF assms(6)]
  by (auto simp: getAIResponse_def generateContent_def OpenAI_generateContent_def)

text \<open>
  Claim C2, amended: when the vendor-B reply has tool-call entries and the arguments string
  of at least one entry is not valid JSON, \<open>generateContent\<close> throws and returns no
  canonical response. \<open>handleAiCommand\<close> does not crash: its \<open>catch\<close> block appends
  one message for that error to the chat history, and nothing else happens: no part of
  the reply is processed, no call is dispatched, and tasks and notes stay as they were.
\<close>

theorem malformed_arguments_abort_response:
  assumes "provider svc = OpenAIProvider key"
    and "openai_fetch net = Inr response"
    and "ok response"
    and "choices (body response) = msg # rest"
    and "tool_calls msg = Some calls"
    and "\<exists>call \<in> set calls. JSON_parse (function_arguments call) = None"
    and "trim P (or_default customMessage (userInput s)) \<noteq> []"
  shows "\<exists>e. getAIResponse svc net = Inl e
           \<and> handleAiCommand P u c svc net customMessage s
               = Inr (s\<lparr> chatHistory := chatHistory s @
                             [ChatMessage user (or_default customMessage (userInput s)),
                              ChatMessage model (errorMessage e)],
                           userInput := [], showSuggestions := False, isAiLoading := False \<rparr>)"
proof -
  from getAIResponse_malformed [OF assms(1-6)] obtain e where e: "getAIResponse svc net = Inl e" ..
  with assms(7) show ?thesis
    by (simp add: handleAiCommand_def Let_def catch_block_def)
qed

lemma good_call_ok: "JSON_parse (function_arguments good_call) = Some (args create_call)"
  by (simp add: good_call_def create_arguments_parse)

lemma bad_call_bad: "JSON_parse (function_arguments bad_call) = None"
  by (simp add: bad_call_def oops_parse)

text \<open>
  Claim C2, as stated: the malformed entry is treated as absent and the other parts are
  still processed. A reply with a valid \<open>create_task\<close> entry followed by an entry whose
  arguments are \<open>{oops\<close> leaves the tasks as they were; the same reply without the
  malformed entry creates the task.
\<close>

theorem malformed_entry_counterexample:
  "JSON_parse (function_arguments good_call) = Some (args create_call)
   \<and> JSON_parse (function_arguments bad_call) = None
   \<and> map_sum id tasks (handleAiCommand latin1 sample_uuid sample_clock openai_svc bad_net
        (Some ''add X'') sample_app) = Inr [report, draft]
   \<and> map_sum id tasks (handleAiCommand latin1 sample_uuid sample_clock openai_svc good_net
        (Some ''add X'') sample_app) = Inr [report, draft, created_X]
   \<and> created_X \<notin> set [report, draft]"
proof -
  have bad: "getAIResponse openai_svc bad_net = Inl (SyntaxError ''Unexpected token in JSON'')"
    by (simp add: getAIResponse_def generateContent_def openai_svc_def bad_net_def
          OpenAI_generateContent_def openai_reply_def JSON_parse_or_throw_def
          good_call_ok bad_call_bad)
  have good: "getAIResponse openai_svc good_net
      = Inr \<lparr> candidates = [[\<lparr> text' = None, functionCall = Some create_call \<rparr>]] \<rparr>"
    by (simp add: getAIResponse_def generateContent_def openai_svc_def good_net_def
          OpenAI_generateContent_def openai_reply_def JSON_parse_or_throw_def good_call_ok)
      (simp add: good_call_def create_call_def)
  have 1: "map_sum id tasks (handleAiCommand latin1 sample_uuid sample_clock openai_svc bad_net
        (Some ''add X'') sample_app) = Inr [report, draft]"
    by (simp add: handleAiCommand_def Let_def or_default_def trim_add_X bad catch_block_def
          sample_app_def)
  have 2: "map_sum id tasks (handleAiCommand latin1 sample_uuid sample_clock openai_svc good_net
        (Some ''add X'') sample_app) = Inr [report, draft, created_X]"
    by (simp add: handleAiCommand_def Let_def or_default_def trim_add_X good sample_uuid_0
          sample_clock_def create_call_run reply_block_def)
      (simp add: sample_app_def)
  have 3: "created_X \<notin> set [report, draft]"
    by (simp add: created_X_def report_def draft_def)
  from good_call_ok bad_call_bad 1 2 3 show ?thesis by simp
qed

theorem malformed_arguments_abort_response_witness:
  "provider openai_svc = OpenAIProvider ''sk-test''
   \<and> JSON_parse (function_arguments bad_call) = None
   \<and> trim latin1 (or_default (Some ''add X'') (userInput sample_app)) \<noteq> []
   \<and> (\<exists>e. getAIResponse openai_svc bad_net = Inl e
         \<and> handleAiCommand latin1 sample_uuid sample_clock openai_svc bad_net (Some ''add X'') sample_app
             = Inr (sample_app\<lparr> chatHistory := chatHistory sample_app @
                           [ChatMessage user ''add X'', ChatMessage model (errorMessage e)],
                         userInput := [], showSuggestions := False, isAiLoading := False \<rparr>))"
proof -
  have p: "provider openai_svc = OpenAIProvider ''sk-test''" by (simp add: openai_svc_def)
  let ?response = "\<lparr> ok = True, status = 200, statusText = ''OK'',
           body = \<lparr> choices = [\<lparr> content = Some ''On it.'',
                                   tool_calls = Some [good_call, bad_call] \<rparr>] \<rparr> \<rparr>"
  have f: "openai_fetch bad_net = Inr ?response"
    by (simp add: bad_net_def openai_reply_def)
  have ok: "ok ?response" by simp
  have ch: "choices (body ?response)
      = \<lparr> content = Some ''On it.'', tool_calls = Some [good_call, bad_call] \<rparr> # []" by simp
  have tc: "tool_calls \<lparr> content = Some ''On it.'', tool_calls = Some [good_call, bad_call] \<rparr>
      = Some [good_call, bad_call]" by simp
  have ex: "\<exists>call \<in> set [good_call, bad_call]. JSON_parse (function_arguments call) = None"
    using bad_call_bad by simp
  have t: "trim latin1 (or_default (Some ''add X'') (userInput sample_app)) \<noteq> []"
    by (simp add: or_default_def trim_add_X)
  from malformed_arguments_abort_response [OF p f ok ch tc ex t,
      where u = sample_uuid and c = sample_clock]
  show ?thesis using p bad_call_bad t by (simp add: or_default_def)
qed

section \<open>Properties of provider selection and failure presentation\<close>

lemma credential_missing_has_API_key: "includes_str (message (credential_missing p)) ''API key''"
  by (simp add: credential_missing_def)

lemma errorMessage_credential_missing: "errorMessage (credential_missing p) = api_key_text"
  using credential_missing_has_API_key [of p]
  by (simp add: errorMessage_def api_key_text_def credential_missing_def)

text \<open>
  Claim C6, as stated: the credential-missing failure is presented by a message of its own,
  distinct from all other failures, which are presented with their raw message text. The
  \<open>catch\<close> block recognises the failure by the words "API key" in the message. A
  vendor-A reply with status 403 and status text "API key not valid" is another failure
  (the credential is configured), and it is presented by the same message, not by its
  raw text.
\<close>

theorem http_failure_presented_as_missing_key_counterexample:
  "generateContent (GeminiProvider ''AIza-test'') forbidden_net
     = Inl (Error ''Gemini API error: 403 API key not valid'')
   \<and> Error ''Gemini API error: 403 API key not valid'' \<noteq> credential_missing ''gemini''
   \<and> errorMessage (Error ''Gemini API error: 403 API key not valid'') = api_key_text
   \<and> errorMessage (Error ''Gemini API error: 403 API key not valid'')
       \<noteq> ''Error: Gemini API error: 403 API key not valid''"
proof -
  have s: "string_of_nat 403 = ''403''" by code_simp
  have 1: "generateContent (GeminiProvider ''AIza-test'') forbidden_net
     = Inl (Error ''Gemini API error: 403 API key not valid'')"
    by (simp add: generateContent_def forbidden_net_def Gemini_generateContent_def
          forbidden_def http_error_def s)
  have 2: "Error ''Gemini API error: 403 API key not valid'' \<noteq> credential_missing ''gemini''"
    by (simp add: credential_missing_def)
  have i: "includes_str ''Gemini API error: 403 API key not valid'' ''API key''"
    by code_simp
  have 3: "errorMessage (Error ''Gemini API error: 403 API key not valid'') = api_key_text"
    using i by (simp add: errorMessage_def api_key_text_def)
  have 4: "api_key_text \<noteq> ''Error: Gemini API error: 403 API key not valid''"
    by (simp add: api_key_text_def)
  from 1 2 3 4 show ?thesis by simp
qed

text \<open>
  Claim C6, amended: when no credential is resolvable for the configured provider,
  \<open>createProvider\<close> returns the stand-in; every \<open>generateContent\<close> and
  \<open>generateJSON\<close> call on it fails with the credential-missing error, whatever the
  network would answer; \<open>handleAiCommand\<close> presents that failure by the
  configure-your-API-key message. Of the other failures, every one whose message contains
  "API key" is presented by that same message; every one with another non-empty message is
  presented as "Error: " followed by the raw message; a failure with an empty message by
  the fixed connection-error text; the last two differ from the API-key message.
\<close>

theorem missing_credential_stand_in:
  assumes "getApiKey P localStorage (or_default (localStorage ''aiProvider'') ''gemini'') = None"
  shows "createProvider P localStorage = MockProvider (or_default (localStorage ''aiProvider'') ''gemini'')
       \<and> generateContent (createProvider P localStorage) net
           = Inl (credential_missing (or_default (localStorage ''aiProvider'') ''gemini''))
       \<and> generateJSON (createProvider P localStorage) net
           = Inl (credential_missing (or_default (localStorage ''aiProvider'') ''gemini''))
       \<and> errorMessage (credential_missing (or_default (localStorage ''aiProvider'') ''gemini''))
           = api_key_text
       \<and> (trim P (or_default customMessage (userInput s)) \<noteq> [] \<longrightarrow>
            handleAiCommand P u c (new_AIService P localStorage) net customMessage s
              = Inr (s\<lparr> chatHistory := chatHistory s @
                            [ChatMessage user (or_default customMessage (userInput s)),
                             ChatMessage model api_key_text],
                          userInput := [], showSuggestions := False, isAiLoading := False \<rparr>))
       \<and> (if includes_str (message err) ''API key'' then errorMessage err = api_key_text
          else if message err \<noteq> [] then errorMessage err = ''Error: '' @ message err
                                        \<and> errorMessage err \<noteq> api_key_text
          else errorMessage err = ''Error connecting to AI. Please try again.''
               \<and> errorMessage err \<noteq> api_key_text)"
proof -
  have c: "createProvider P localStorage
      = MockProvider (or_default (localStorage ''aiProvider'') ''gemini'')"
    using assms by (simp add: createProvider_def Let_def)
  have gc: "generateContent (createProvider P localStorage) net
      = Inl (credential_missing (or_default (localStorage ''aiProvider'') ''gemini''))"
    by (simp add: c generateContent_def)
  have gj: "generateJSON (createProvider P localStorage) net
      = Inl (credential_missing (or_default (localStorage ''aiProvider'') ''gemini''))"
    by (simp add: c generateJSON_def)
  have e: "includes_str (message err) ''API key'' \<Longrightarrow> message err \<noteq> []"
    by (cases "message err") auto
  have cls: "if includes_str (message err) ''API key'' then errorMessage err = api_key_text
          else if message err \<noteq> [] then errorMessage err = ''Error: '' @ message err
                                        \<and> errorMessage err \<noteq> api_key_text
          else errorMessage err = ''Error connecting to AI. Please try again.''
               \<and> errorMessage err \<noteq> api_key_text"
    using e by (auto simp: errorMessage_def api_key_text_def)
  have h: "trim P (or_default customMessage (userInput s)) \<noteq> [] \<longrightarrow>
            handleAiCommand P u c (new_AIService P localStorage) net customMessage s
              = Inr (s\<lparr> chatHistory := chatHistory s @
                            [ChatMessage user (or_default customMessage (userInput s)),
                             ChatMessage model api_key_text],
                          userInput := [], showSuggestions := False, isAiLoading := False \<rparr>)"
    using gc errorMessage_credential_missing
    by (simp add: handleAiCommand_def Let_def getAIResponse_def new_AIService_def catch_block_def)
  from c gc gj errorMessage_credential_missing h cls show ?thesis by blast
qed

theorem missing_credential_stand_in_witness:
  "getApiKey latin1 empty_storage (or_default (empty_storage ''aiProvider'') ''gemini'') = None
   \<and> createProvider latin1 empty_storage = MockProvider ''gemini''
   \<and> generateContent (createProvider latin1 empty_storage) good_net = Inl (credential_missing ''gemini'')
   \<and> generateJSON (createProvider latin1 empty_storage) good_net = Inl (credential_missing ''gemini'')
   \<and> errorMessage (credential_missing ''gemini'') = api_key_text
   \<and> trim latin1 (or_default (Some ''add X'') (userInput sample_app)) \<noteq> []
   \<and> handleAiCommand latin1 sample_uuid sample_clock (new_AIService latin1 empty_storage) good_net
         (Some ''add X'') sample_app
       = Inr (sample_app\<lparr> chatHistory := chatHistory sample_app @
                     [ChatMessage user ''add X'', ChatMessage model api_key_text],
                   userInput := [], showSuggestions := False, isAiLoading := False \<rparr>)
   \<and> errorMessage (TypeError ''Failed to fetch'') = ''Error: Failed to fetch''"
proof -
  have g: "getApiKey latin1 empty_storage (or_default (empty_storage ''aiProvider'') ''gemini'') = None"
    by (simp add: getApiKey_def empty_storage_def or_default_def or_js_def)
  have d: "or_default (empty_storage ''aiProvider'') ''gemini'' = ''gemini''"
    by (simp add: empty_storage_def or_default_def)
  have n: "\<not> includes_str (message (TypeError ''Failed to fetch'')) ''API key''"
    by code_simp
  have t: "trim latin1 (or_default (Some ''add X'') (userInput sample_app)) \<noteq> []"
    by (simp add: or_default_def trim_add_X)
  from missing_credential_stand_in [OF g, where net = good_net
      and customMessage = "Some ''add X''" and s = sample_app and u = sample_uuid
      and c = sample_clock and err = "TypeError ''Failed to fetch''"]
  show ?thesis using g d n t
    by (simp add: generateContent_def generateJSON_def or_default_def)
qed


section \<open>Properties of loading the persisted state\<close>

lemma load_saved_missing: "localStorage key = None \<Longrightarrow> load_saved localStorage key dflt = Inr dflt"
  by (simp add: load_saved_def)

lemma load_saved_corrupt:
  "localStorage key = Some saved \<Longrightarrow> saved \<noteq> [] \<Longrightarrow> JSON_parse saved = None \<Longrightarrow>
     load_saved localStorage key dflt = Inl (SyntaxError ''Unexpected token in JSON'')"
  by (simp add: load_saved_def JSON_parse_or_throw_def)

lemma load_saved_result:
  "load_saved localStorage key dflt = Inl e \<Longrightarrow> e = SyntaxError ''Unexpected token in JSON''"
  by (auto simp: load_saved_def JSON_parse_or_throw_def split: option.splits if_splits)

text \<open>
  Claim C7, as stated: a persisted value that is present but not readable JSON makes the
  load fall back to the default. There is no handler around \<open>JSON.parse\<close>: with
  \<open>{oops\<close> stored under the tasks key, the initialiser of the tasks throws and the
  initialisation of the application ends with that exception.
\<close>

theorem corrupt_storage_counterexample:
  "corrupt_storage ''zentime-tasks-v2'' = Some ''{oops''
   \<and> JSON_parse ''{oops'' = None
   \<and> load_tasks corrupt_storage = Inl (SyntaxError ''Unexpected token in JSON'')
   \<and> App_init 0 corrupt_storage = Inl (SyntaxError ''Unexpected token in JSON'')"
  using oops_parse
  by (simp add: corrupt_storage_def load_tasks_def load_saved_def JSON_parse_or_throw_def
        App_init_def)

text \<open>
  Claim C7, amended: for each of the keys of tasks, profile and notes, a value that is
  missing or the empty string yields the typed default (the empty list, the default
  profile, the empty list), and with all values missing or empty the application starts
  from the defaults; a value that is readable JSON yields what it parses to. If the
  value under one of these keys is present, not empty and not readable JSON, its load
  throws a \<open>SyntaxError\<close> and so does the initialisation of the application: there is
  no fallback.
\<close>

theorem load_defaults_and_failure:
  assumes "key \<in> {''zentime-tasks-v2'', ''zentime-profile'', ''zentime-general-notes''}"
  shows "(localStorage ''zentime-tasks-v2'' = None \<or> localStorage ''zentime-tasks-v2'' = Some []
            \<longrightarrow> load_tasks localStorage = Inr (JArr []))
       \<and> (localStorage ''zentime-profile'' = None \<or> localStorage ''zentime-profile'' = Some []
            \<longrightarrow> load_profile now localStorage = Inr (default_profile now))
       \<and> (localStorage ''zentime-general-notes'' = None
          \<or> localStorage ''zentime-general-notes'' = Some []
            \<longrightarrow> load_generalNotes localStorage = Inr (JArr []))
       \<and> ((localStorage ''zentime-tasks-v2'' = None \<or> localStorage ''zentime-tasks-v2'' = Some [])
          \<and> (localStorage ''zentime-profile'' = None \<or> localStorage ''zentime-profile'' = Some [])
          \<and> (localStorage ''zentime-general-notes'' = None
             \<or> localStorage ''zentime-general-notes'' = Some [])
          \<and> (localStorage ''zentime-feedback'' = None \<or> localStorage ''zentime-feedback'' = Some [])
            \<longrightarrow> App_init now localStorage
                  = Inr \<lparr> p_tasks = JArr [], p_profile = default_profile now,
                          p_generalNotes = JArr [], p_feedbackNotes = [] \<rparr>)
       \<and> (localStorage key = Some saved \<and> saved \<noteq> [] \<and> JSON_parse saved = Some v
            \<longrightarrow> load_saved localStorage key dflt = Inr v)
       \<and> (localStorage key = Some saved \<and> saved \<noteq> [] \<and> JSON_parse saved = None
            \<longrightarrow> load_saved localStorage key dflt = Inl (SyntaxError ''Unexpected token in JSON'')
                \<and> App_init now localStorage = Inl (SyntaxError ''Unexpected token in JSON''))"
proof -
  have corrupt: "App_init now localStorage = Inl (SyntaxError ''Unexpected token in JSON'')"
    if k: "localStorage key = Some saved" "saved \<noteq> []" "JSON_parse saved = None"
  proof -
    have c: "load_saved localStorage key dflt' = Inl (SyntaxError ''Unexpected token in JSON'')"
      for dflt'
      using k by (simp add: load_saved_def JSON_parse_or_throw_def)
    from assms consider "key = ''zentime-tasks-v2''" | "key = ''zentime-profile''"
      | "key = ''zentime-general-notes''" by auto
    then show ?thesis
    proof cases
      case 1
      with c [of "JArr []"] show ?thesis by (simp add: App_init_def load_tasks_def)
    next
      case 2
      with c [of "default_profile now"] show ?thesis
        by (auto simp: App_init_def load_profile_def load_tasks_def
            split: sum.splits dest: load_saved_result)
    next
      case 3
      with c [of "JArr []"] show ?thesis
        by (auto simp: App_init_def load_profile_def load_tasks_def load_generalNotes_def
            split: sum.splits dest: load_saved_result)
    qed
  qed
  have d: "load_saved localStorage k dflt' = Inr dflt'"
    if "localStorage k = None \<or> localStorage k = Some []" for k dflt'
    using that by (auto simp: load_saved_def)
  have t: "localStorage ''zentime-tasks-v2'' = None \<or> localStorage ''zentime-tasks-v2'' = Some []
            \<longrightarrow> load_tasks localStorage = Inr (JArr [])"
    using d by (simp add: load_tasks_def)
  have p: "localStorage ''zentime-profile'' = None \<or> localStorage ''zentime-profile'' = Some []
            \<longrightarrow> load_profile now localStorage = Inr (default_profile now)"
    using d by (simp add: load_profile_def)
  have g: "localStorage ''zentime-general-notes'' = None
          \<or> localStorage ''zentime-general-notes'' = Some []
            \<longrightarrow> load_generalNotes localStorage = Inr (JArr [])"
    using d by (simp add: load_generalNotes_def)
  have a: "(localStorage ''zentime-tasks-v2'' = None \<or> localStorage ''zentime-tasks-v2'' = Some [])
          \<and> (localStorage ''zentime-profile'' = None \<or> localStorage ''zentime-profile'' = Some [])
          \<and> (localStorage ''zentime-general-notes'' = None
             \<or> localStorage ''zentime-general-notes'' = Some [])
          \<and> (localStorage ''zentime-feedback'' = None \<or> localStorage ''zentime-feedback'' = Some [])
            \<longrightarrow> App_init now localStorage
                  = Inr \<lparr> p_tasks = JArr [], p_profile = default_profile now,
                          p_generalNotes = JArr [], p_feedbackNotes = [] \<rparr>"
    using t p g by (auto simp: App_init_def or_default_def)
  have v: "localStorage key = Some saved \<and> saved \<noteq> [] \<and> JSON_parse saved = Some v
            \<longrightarrow> load_saved localStorage key dflt = Inr v"
    by (simp add: load_saved_def JSON_parse_or_throw_def)
  have c: "localStorage key = Some saved \<and> saved \<noteq> [] \<and> JSON_parse saved = None
            \<longrightarrow> load_saved localStorage key dflt = Inl (SyntaxError ''Unexpected token in JSON'')
                \<and> App_init now localStorage = Inl (SyntaxError ''Unexpected token in JSON'')"
    using corrupt by (simp add: load_saved_corrupt)
  from t p g a v c show ?thesis by blast
qed

theorem load_defaults_and_failure_witness:
  "''zentime-tasks-v2'' \<in> {''zentime-tasks-v2'', ''zentime-profile'', ''zentime-general-notes''}
   \<and> empty_storage ''zentime-tasks-v2'' = None
   \<and> load_tasks empty_storage = Inr (JArr [])
   \<and> load_profile 5 empty_storage = Inr (default_profile 5)
   \<and> load_generalNotes empty_storage = Inr (JArr [])
   \<and> App_init 5 empty_storage
       = Inr \<lparr> p_tasks = JArr [], p_profile = default_profile 5,
               p_generalNotes = JArr [], p_feedbackNotes = [] \<rparr>
   \<and> blank_storage ''zentime-tasks-v2'' = Some []
   \<and> App_init 5 blank_storage
       = Inr \<lparr> p_tasks = JArr [], p_profile = default_profile 5,
               p_generalNotes = JArr [], p_feedbackNotes = [] \<rparr>
   \<and> corrupt_storage ''zentime-tasks-v2'' = Some ''{oops''
   \<and> ''{oops'' \<noteq> [] \<and> JSON_parse ''{oops'' = None
   \<and> App_init 5 corrupt_storage = Inl (SyntaxError ''Unexpected token in JSON'')"
proof -
  have k: "''zentime-tasks-v2'' \<in> {''zentime-tasks-v2'', ''zentime-profile'', ''zentime-general-notes''}"
    by simp
  have e: "empty_storage ''zentime-tasks-v2'' = None" "empty_storage ''zentime-profile'' = None"
    "empty_storage ''zentime-general-notes'' = None" "empty_storage ''zentime-feedback'' = None"
    by (simp_all add: empty_storage_def)
  have b: "blank_storage ''zentime-tasks-v2'' = Some []" "blank_storage ''zentime-profile'' = Some []"
    "blank_storage ''zentime-general-notes'' = Some []" "blank_storage ''zentime-feedback'' = Some []"
    by (simp_all add: blank_storage_def)
  have c: "corrupt_storage ''zentime-tasks-v2'' = Some ''{oops''"
    by (simp add: corrupt_storage_def)
  from load_defaults_and_failure [OF k, where localStorage = empty_storage and now = 5
      and saved = "''{oops''" and dflt = "JArr []"]
    load_defaults_and_failure [OF k, where localStorage = blank_storage and now = 5
      and saved = "''{oops''" and dflt = "JArr []"]
    load_defaults_and_failure [OF k, where localStorage = corrupt_storage and now = 5
      and saved = "''{oops''" and dflt = "JArr []"]
  show ?thesis using k e b c oops_parse by simp
qed
section \<open>Properties of the alarm tick\<close>

lemma find_first:
  "find P xs = Some x \<Longrightarrow> \<exists>ys zs. xs = ys @ x # zs \<and> P x \<and> (\<forall>y \<in> set ys. \<not> P y)"
proof (induction xs)
  case Nil
  then show ?case by simp
next
  case (Cons a xs)
  show ?case
  proof (cases "P a")
    case True
    with Cons.prems have "a = x" by simp
    with True have "a # xs = [] @ x # xs \<and> P x \<and> (\<forall>y \<in> set []. \<not> P y)" by simp
    then show ?thesis by blast
  next
    case False
    with Cons.prems have "find P xs = Some x" by simp
    from Cons.IH [OF this] obtain ys zs
      where "xs = ys @ x # zs" "P x" "\<forall>y \<in> set ys. \<not> P y" by blast
    with False have "a # xs = (a # ys) @ x # zs \<and> P x \<and> (\<forall>y \<in> set (a # ys). \<not> P y)"
      by simp
    then show ?thesis by blast
  qed
qed

lemma time_0900: "timeStr 9 0 = ''09:00''"
  by code_simp

lemma time_0901: "timeStr 9 1 = ''09:01''"
  by code_simp

lemma find_0900: "find (rings_at ''09:00'') (tasks alarm_app) = Some wake"
  by (simp add: alarm_app_def rings_at_def wake_def)

lemma find_0901: "find (rings_at ''09:01'') (tasks alarm_app) = None"
  by (simp add: alarm_app_def rings_at_def wake_def stretch_def)

lemma first_tick: "alarm_tick 9 0 alarm_app = (alarm_app\<lparr>activeAlarm := Some wake\<rparr>, True)"
  using find_0900 by (simp add: alarm_tick_def time_0900) (simp add: alarm_app_def)

text \<open>
  What one tick guarantees: a tick that starts the tone activates the first task in stored
  order that is alarm-enabled, not completed and whose reminder time is the current
  minute, and that task is not the alarm that was active before the tick; a tick that
  does not start the tone changes nothing; the tick that follows a tick at the same
  minute, from the state the first one left, does nothing.
\<close>

lemma alarm_tick_rules:
  "case alarm_tick h m s of
     (s', tone) \<Rightarrow>
       (tone \<longrightarrow>
          (\<exists>r ys zs. tasks s = ys @ r # zs
             \<and> (\<forall>y \<in> set ys. \<not> rings_at (timeStr h m) y)
             \<and> alarmEnabled r = Some True \<and> \<not> completed r
             \<and> reminderTime r = Some (JStr (timeStr h m))
             \<and> map_option id' (activeAlarm s) \<noteq> Some (id' r)
             \<and> s' = s\<lparr>activeAlarm := Some r\<rparr>))
       \<and> (\<not> tone \<longrightarrow> s' = s)
       \<and> alarm_tick h m s' = (s', False)"
proof (cases "find (rings_at (timeStr h m)) (tasks s)")
  case None
  then show ?thesis by (simp add: alarm_tick_def)
next
  case (Some r)
  from find_first [OF Some] obtain ys zs
    where sp: "tasks s = ys @ r # zs" "rings_at (timeStr h m) r"
      "\<forall>y \<in> set ys. \<not> rings_at (timeStr h m) y" by blast
  show ?thesis
  proof (cases "map_option id' (activeAlarm s) \<noteq> Some (id' r)")
    case True
    have again: "alarm_tick h m (s\<lparr>activeAlarm := Some r\<rparr>) = (s\<lparr>activeAlarm := Some r\<rparr>, False)"
      using Some by (simp add: alarm_tick_def)
    have "\<exists>r' ys' zs'. tasks s = ys' @ r' # zs'
             \<and> (\<forall>y \<in> set ys'. \<not> rings_at (timeStr h m) y)
             \<and> alarmEnabled r' = Some True \<and> \<not> completed r'
             \<and> reminderTime r' = Some (JStr (timeStr h m))
             \<and> map_option id' (activeAlarm s) \<noteq> Some (id' r')
             \<and> s\<lparr>activeAlarm := Some r\<rparr> = s\<lparr>activeAlarm := Some r'\<rparr>"
      using sp True unfolding rings_at_def by blast
    with True Some again show ?thesis by (simp add: alarm_tick_def)
  next
    case False
    with Some show ?thesis by (simp add: alarm_tick_def)
  qed
qed

text \<open>
  Claim C9 says that the alarm activates at most once per task per matching minute: once a
  task has become the active alarm, later ticks within the same minute do not re-trigger
  it. The tick compares the ringing task with the alarm that is active now, and DISMISS
  clears the active alarm: a tick at 09:00 activates the task with reminder 09:00 and
  starts the tone; after DISMISS the next tick at 09:00 activates the same task and
  starts the tone a second time.
\<close>

theorem dismissed_alarm_rings_again:
  "alarm_tick 9 0 alarm_app = (alarm_app\<lparr>activeAlarm := Some wake\<rparr>, True)
   \<and> dismiss (alarm_app\<lparr>activeAlarm := Some wake\<rparr>) = alarm_app
   \<and> alarm_tick 9 0 (dismiss (alarm_app\<lparr>activeAlarm := Some wake\<rparr>))
       = (alarm_app\<lparr>activeAlarm := Some wake\<rparr>, True)"
  using first_tick find_0900
  by (simp add: dismiss_def alarm_tick_def time_0900) (simp add: alarm_app_def)

end
